theory Spec2Isabelle
  imports Complex_Main "HOL-Library.Extended_Nat" "HOL-Library.AList" "HOL-Library.Sublist"
begin

section \<open>Conventions of the embedding\<close>

text \<open>
  The program is a sequential Python simulation of a mobile-money platform. Its objects
  are mutable, so every method is a function from the state before the call to the result
  and the state after it.

  \<^item> Amounts and balances are Python numbers; they are modelled as \<open>int\<close>.
  \<^item> Wall-clock readings (\<open>time.time()\<close>) are \<open>real\<close> numbers of seconds. The clock
    and the random draws belong to the environment: every function that reads the clock
    or draws a random number takes the value read as an argument.
  \<^item> \<open>print\<close> calls, the \<open>latency_ms\<close> metric, the \<open>created_at\<close>, \<open>completed_at\<close> and
    \<open>timestamp\<close> stamps and the blocking \<open>time.sleep\<close> calls influence no decision of
    the code and are left out.
  \<^item> A \<open>Node\<close> object is referred to by its \<open>id\<close>; the store \<open>nodes\<close> maps each
    reference to the current fields of the object, so two references with the same id
    are aliases, as in the driver.
  \<^item> An exception is a value of type \<open>exn\<close>, carrying its message; a function that may
    raise returns \<open>exn + 'a\<close> together with the state reached when it was raised.
  \<^item> The field \<open>to_user\<close> of a transaction is declared optional but is always given in
    this repository; it is a plain string.
\<close>

datatype exn = TimeoutError string | TypeError string | KeyError string

text \<open>Values of the free-form \<open>metadata\<close> dictionary of a transaction.\<close>

datatype meta = MStr string | MBool bool

section \<open>models/transaction.py\<close>

datatype TransactionType = TRANSFER | PAYMENT | DEPOSIT | WITHDRAWAL

datatype TransactionStatus = PENDING | PREPARED | COMMITTED | ABORTED | FAILED

record transaction =
  transaction_id :: string
  tx_type :: TransactionType
  from_user :: string
  to_user :: string
  amount :: int
  currency :: string
  status :: TransactionStatus
  error_message :: "string option"
  metadata :: "string \<rightharpoonup> meta"

definition new_transaction ::
  "string \<Rightarrow> TransactionType \<Rightarrow> string \<Rightarrow> string \<Rightarrow> int \<Rightarrow> (string \<rightharpoonup> meta) \<Rightarrow> transaction" where
  "new_transaction tid ty fu tu amt md =
     \<lparr>transaction_id = tid, tx_type = ty, from_user = fu, to_user = tu, amount = amt,
      currency = ''XOF'', status = PENDING, error_message = None, metadata = md\<rparr>"

definition mark_prepared :: "transaction \<Rightarrow> transaction" where
  "mark_prepared tx = tx\<lparr>status := PREPARED\<rparr>"

definition mark_committed :: "transaction \<Rightarrow> transaction" where
  "mark_committed tx = tx\<lparr>status := COMMITTED\<rparr>"

definition mark_aborted :: "string \<Rightarrow> transaction \<Rightarrow> transaction" where
  "mark_aborted reason tx = tx\<lparr>status := ABORTED, error_message := Some reason\<rparr>"

definition mark_failed :: "string \<Rightarrow> transaction \<Rightarrow> transaction" where
  "mark_failed err tx = tx\<lparr>status := FAILED, error_message := Some err\<rparr>"

text \<open>
  \<open>to_dict\<close> copies the fields of the transaction at the time of the call; the immutable
  record is that snapshot. A node stores the snapshot together with its own id.
\<close>

type_synonym tx_entry = "transaction \<times> string"

text \<open>
  Values stored in the result dictionaries. \<open>PText\<close> stands for a human-readable message
  (French text, possibly formatted from the amount) whose characters are not modelled.
\<close>

datatype pyval =
    PBool bool
  | PStr string
  | PNum int
  | PNone
  | PText
  | PStrs "string list"
  | PTxs "tx_entry list"

type_synonym result = "string \<rightharpoonup> pyval"

definition opt_num :: "int option \<Rightarrow> pyval" where
  "opt_num b = (case b of None \<Rightarrow> PNone | Some v \<Rightarrow> PNum v)"

section \<open>models/node.py\<close>

datatype NodeRole = MASTER | REPLICA_RW | REPLICA_RO | REPLICA_ANALYTICS

datatype NodeState = HEALTHY | DEGRADED | ISOLATED | DOWN

text \<open>
  The dictionary \<open>cache\<close> holds the keys \<open>balance:<user>\<close> and \<open>history:<user>\<close>. The two
  prefixes never collide, so the dictionary is kept as two maps indexed by the user id:
  \<open>balance_cache\<close> for the first kind of key and \<open>history_cache\<close> for the second. Each
  entry is a pair of the value and its expiry instant.

  The fields \<open>name\<close>, \<open>location\<close>, \<open>error_count\<close> and \<open>total_latency\<close> are never
  written after the constructor and decide nothing; they are left out, and so is \<open>id\<close>,
  which is the reference of the node in the store.
\<close>

record node =
  role :: NodeRole
  state :: NodeState
  accounts :: "string \<rightharpoonup> int"
  transactions :: "tx_entry list"
  balance_cache :: "string \<rightharpoonup> int \<times> real"
  history_cache :: "string \<rightharpoonup> tx_entry list \<times> real"
  last_heartbeat :: real
  request_count :: nat
  can_reach :: "string \<rightharpoonup> bool"

definition new_node :: "real \<Rightarrow> NodeRole \<Rightarrow> node" where
  "new_node now r =
     \<lparr>role = r, state = HEALTHY, accounts = Map.empty, transactions = [],
      balance_cache = Map.empty, history_cache = Map.empty, last_heartbeat = now,
      request_count = 0, can_reach = Map.empty\<rparr>"

definition is_master :: "node \<Rightarrow> bool" where
  "is_master n = (role n = MASTER)"

definition can_write :: "node \<Rightarrow> bool" where
  "can_write n = (role n = MASTER \<or> role n = REPLICA_RW)"

definition can_reach_master :: "node \<Rightarrow> string \<Rightarrow> bool" where
  "can_reach_master n master_id =
     (if is_master n then True
      else (case can_reach n master_id of Some b \<Rightarrow> b | None \<Rightarrow> True))"

definition update_heartbeat :: "real \<Rightarrow> node \<Rightarrow> node" where
  "update_heartbeat now n = n\<lparr>last_heartbeat := now\<rparr>"

text \<open>\<open>is_healthy\<close> reads the clock (\<open>now\<close>) and may set the state to \<open>ISOLATED\<close>.\<close>

definition is_healthy :: "real \<Rightarrow> node \<Rightarrow> bool \<times> node" where
  "is_healthy now n =
     (if now - last_heartbeat n > 3 then (False, n\<lparr>state := ISOLATED\<rparr>)
      else (state n = HEALTHY, n))"

text \<open>The three cache primitives, on either of the two cache maps.\<close>

definition get_from_cache ::
  "real \<Rightarrow> string \<Rightarrow> (string \<rightharpoonup> 'v \<times> real) \<Rightarrow> 'v option \<times> (string \<rightharpoonup> 'v \<times> real)" where
  "get_from_cache now key c =
     (case c key of
        Some (v, expiry) \<Rightarrow> if now < expiry then (Some v, c) else (None, c(key := None))
      | None \<Rightarrow> (None, c))"

definition set_cache ::
  "real \<Rightarrow> string \<Rightarrow> 'v \<Rightarrow> real \<Rightarrow> (string \<rightharpoonup> 'v \<times> real) \<Rightarrow> (string \<rightharpoonup> 'v \<times> real)" where
  "set_cache now key v ttl c = c(key \<mapsto> (v, now + ttl))"

definition invalidate_cache :: "string \<Rightarrow> (string \<rightharpoonup> 'v \<times> real) \<Rightarrow> (string \<rightharpoonup> 'v \<times> real)" where
  "invalidate_cache key c = (case c key of Some e \<Rightarrow> c(key := None) | None \<Rightarrow> c)"

text \<open>
  \<open>get_balance\<close>: the argument \<open>from_cache\<close> is \<open>None\<close> for \<open>from_cache=False\<close> and
  \<open>Some now\<close> for \<open>from_cache=True\<close>, \<open>now\<close> being the clock read by the cache lookup.
\<close>

definition get_balance :: "string \<Rightarrow> real option \<Rightarrow> node \<Rightarrow> int option \<times> node" where
  "get_balance user_id from_cache n =
     (let n1 = n\<lparr>request_count := request_count n + 1\<rparr> in
      case from_cache of
        Some now \<Rightarrow>
          (case get_from_cache now user_id (balance_cache n1) of
             (Some cached, c) \<Rightarrow> (Some cached, n1\<lparr>balance_cache := c\<rparr>)
           | (None, c) \<Rightarrow> (accounts n1 user_id, n1\<lparr>balance_cache := c\<rparr>))
      | None \<Rightarrow> (accounts n1 user_id, n1))"

definition set_balance :: "string \<Rightarrow> int \<Rightarrow> node \<Rightarrow> node" where
  "set_balance user_id b n =
     n\<lparr>accounts := (accounts n)(user_id \<mapsto> b),
       balance_cache := invalidate_cache user_id (balance_cache n)\<rparr>"

definition add_transaction :: "string \<Rightarrow> transaction \<Rightarrow> node \<Rightarrow> node" where
  "add_transaction self_id tx n = n\<lparr>transactions := transactions n @ [(tx, self_id)]\<rparr>"

definition get_transactions :: "string \<Rightarrow> real option \<Rightarrow> node \<Rightarrow> tx_entry list \<times> node" where
  "get_transactions user_id from_cache n =
     (let n1 = n\<lparr>request_count := request_count n + 1\<rparr>;
          user_txs = filter (\<lambda>(tx, nid). from_user tx = user_id \<or> to_user tx = user_id)
                       (transactions n1) in
      case from_cache of
        Some now \<Rightarrow>
          (case get_from_cache now user_id (history_cache n1) of
             (Some cached, c) \<Rightarrow> (cached, n1\<lparr>history_cache := c\<rparr>)
           | (None, c) \<Rightarrow> (user_txs, n1\<lparr>history_cache := c\<rparr>))
      | None \<Rightarrow> (user_txs, n1))"

section \<open>config/network_config.py\<close>

datatype mode = Normal | Congested | Partitioned

text \<open>The latency tables as the module defines them, in milliseconds.\<close>

definition NetworkConfig_LATENCIES :: "mode \<Rightarrow> (string \<times> string) \<rightharpoonup> enat" where
  "NetworkConfig_LATENCIES m =
     (case m of
        Normal \<Rightarrow> [(''DAKAR'', ''SAINT_LOUIS'') \<mapsto> 50,
                   (''DAKAR'', ''ZIGUINCHOR'') \<mapsto> 150,
                   (''SAINT_LOUIS'', ''ZIGUINCHOR'') \<mapsto> 200]
      | Congested \<Rightarrow> [(''DAKAR'', ''SAINT_LOUIS'') \<mapsto> 200,
                      (''DAKAR'', ''ZIGUINCHOR'') \<mapsto> 600,
                      (''SAINT_LOUIS'', ''ZIGUINCHOR'') \<mapsto> 800]
      | Partitioned \<Rightarrow> [(''DAKAR'', ''ZIGUINCHOR'') \<mapsto> \<infinity>,
                        (''DAKAR'', ''SAINT_LOUIS'') \<mapsto> 50,
                        (''SAINT_LOUIS'', ''ZIGUINCHOR'') \<mapsto> \<infinity>])"

definition TIMEOUT_transfer :: real where
  "TIMEOUT_transfer = 5000 / 1000"

definition CACHE_TTL_balance :: real where
  "CACHE_TTL_balance = 60"

definition CACHE_TTL_history :: real where
  "CACHE_TTL_history = 300"

section \<open>The state of a simulation run\<close>

text \<open>
  One record holds every mutable object of a run.

  \<^item> \<open>nodes\<close>: the store of \<open>Node\<close> objects.
  \<^item> \<open>LATENCIES\<close>: the module-level dictionary \<open>NetworkConfig.LATENCIES\<close>. It is mutable
    and shared: \<open>NetworkSimulator.__init__\<close> and \<open>set_mode\<close> bind \<open>self.latencies\<close> to the
    very dictionary \<open>NetworkConfig.LATENCIES[mode]\<close>, not to a copy of it, so
    \<open>self.latencies\<close> is the table of the current \<open>mode\<close>.
  \<^item> \<open>communication_log\<close>: the log of the \<open>NetworkSimulator\<close> (sender, receiver, message
    type, success flag, error).
  \<^item> \<open>sim_nodes\<close>, \<open>partition_active\<close>, \<open>partition_start_time\<close>: the \<open>PartitionSimulator\<close>;
    \<open>sim_nodes\<close> lists the ids of the nodes it was built with.
  \<^item> \<open>committed_transactions\<close>, \<open>aborted_transactions\<close>: the \<open>TransferService\<close>.
  \<^item> \<open>payment_count\<close>, \<open>success_count\<close>, \<open>failed_count\<close>: the \<open>PaymentService\<close>.
  \<^item> \<open>query_count\<close>, \<open>cache_hits\<close>, \<open>cache_misses\<close>: the \<open>BalanceService\<close>.
  \<^item> \<open>history_query_count\<close>: the field \<open>query_count\<close> of the \<open>HistoryService\<close>.
\<close>

type_synonym log_entry = "string \<times> string \<times> string \<times> bool \<times> string option"

record world =
  nodes :: "string \<Rightarrow> node"
  LATENCIES :: "mode \<Rightarrow> (string \<times> string) \<rightharpoonup> enat"
  mode :: mode
  communication_log :: "log_entry list"
  sim_nodes :: "string list"
  partition_active :: bool
  partition_start_time :: "real option"
  committed_transactions :: "string \<rightharpoonup> transaction"
  aborted_transactions :: "string \<rightharpoonup> transaction"
  payment_count :: nat
  success_count :: nat
  failed_count :: nat
  query_count :: nat
  cache_hits :: nat
  cache_misses :: nat
  history_query_count :: nat

text \<open>Calling a method of the node \<open>nid\<close>: the store is updated with the node after the call.\<close>

definition on_node :: "string \<Rightarrow> (node \<Rightarrow> 'a \<times> node) \<Rightarrow> world \<Rightarrow> 'a \<times> world" where
  "on_node nid f w = (case f (nodes w nid) of (r, n') \<Rightarrow> (r, w\<lparr>nodes := (nodes w)(nid := n')\<rparr>))"

definition upd_node :: "string \<Rightarrow> (node \<Rightarrow> node) \<Rightarrow> world \<Rightarrow> world" where
  "upd_node nid f w = w\<lparr>nodes := (nodes w)(nid := f (nodes w nid))\<rparr>"

text \<open>The balance map of every node.\<close>

definition balances :: "world \<Rightarrow> string \<Rightarrow> string \<rightharpoonup> int" where
  "balances w = (\<lambda>nid. accounts (nodes w nid))"

section \<open>simulation/network_simulator.py\<close>

definition latencies :: "world \<Rightarrow> (string \<times> string) \<rightharpoonup> enat" where
  "latencies w = LATENCIES w (mode w)"

definition set_latency :: "string \<times> string \<Rightarrow> enat \<Rightarrow> world \<Rightarrow> world" where
  "set_latency key l w = w\<lparr>LATENCIES := (LATENCIES w)(mode w := (latencies w)(key \<mapsto> l))\<rparr>"

definition set_mode :: "mode \<Rightarrow> world \<Rightarrow> world" where
  "set_mode m w = w\<lparr>mode := m\<rparr>"

text \<open>
  \<open>base_latency\<close> is the lookup of \<open>_get_latency\<close> (the latency before the random jitter
  factor is applied): 0 for a node and itself, the entry of the pair in either order,
  100 when there is none.
\<close>

definition base_latency :: "world \<Rightarrow> string \<Rightarrow> string \<Rightarrow> enat" where
  "base_latency w from_node to_node =
     (if from_node = to_node then 0
      else (case latencies w (from_node, to_node) of
              Some l \<Rightarrow> l
            | None \<Rightarrow> (case latencies w (to_node, from_node) of Some l \<Rightarrow> l | None \<Rightarrow> 100)))"

text \<open>
  \<open>send_message\<close>: \<open>lost\<close> is the outcome of the random draw of \<open>_is_packet_lost\<close>
  (the field \<open>packet_loss\<close> is only the probability of that draw). The response is \<open>None\<close>
  exactly when the packet is lost; otherwise it is a dictionary with the status
  \<open>success\<close>. Either way the communication is logged. The latency is only slept; an
  infinite latency makes \<open>time.sleep\<close> raise \<open>OverflowError\<close>, which the method catches.
\<close>

definition send_message ::
  "bool \<Rightarrow> string \<Rightarrow> string \<Rightarrow> string \<Rightarrow> world \<Rightarrow> result option \<times> world" where
  "send_message lost from_node to_node message_type w =
     (if lost then
        (None, w\<lparr>communication_log := communication_log w @
                   [(from_node, to_node, message_type, False, Some ''Packet lost'')]\<rparr>)
      else
        (Some [''status'' \<mapsto> PStr ''success''],
         w\<lparr>communication_log := communication_log w @
              [(from_node, to_node, message_type, True, None)]\<rparr>))"

definition simulate_partition :: "string \<Rightarrow> string \<Rightarrow> world \<Rightarrow> world" where
  "simulate_partition node1 node2 w =
     set_latency (node2, node1) \<infinity> (set_latency (node1, node2) \<infinity> w)"

text \<open>
  \<open>NetworkSimulator.heal_partition\<close>: the table \<open>normal_latencies\<close> is read from the shared
  dictionary at the time of each test, after the preceding assignment.
\<close>

definition network_heal_partition :: "string \<Rightarrow> string \<Rightarrow> world \<Rightarrow> world" where
  "network_heal_partition node1 node2 w =
     (let key1 = (node1, node2);
          key2 = (node2, node1);
          w1 = (case LATENCIES w Normal key1 of Some l \<Rightarrow> set_latency key1 l w | None \<Rightarrow> w);
          w2 = (case LATENCIES w1 Normal key2 of Some l \<Rightarrow> set_latency key2 l w1 | None \<Rightarrow> w1)
      in w2)"

section \<open>simulation/partition_simulator.py\<close>

text \<open>
  \<open>self.nodes[node_id]\<close> raises \<open>KeyError\<close> for an id the simulator was not built with;
  the network has been modified by then.
\<close>

definition create_partition :: "real \<Rightarrow> string \<Rightarrow> string \<Rightarrow> world \<Rightarrow> (exn + unit) \<times> world" where
  "create_partition now node1_id node2_id w =
     (let w1 = simulate_partition node1_id node2_id w in
      if node1_id \<notin> set (sim_nodes w1) then (Inl (KeyError node1_id), w1)
      else if node2_id \<notin> set (sim_nodes w1) then (Inl (KeyError node2_id), w1)
      else
        let w2 = upd_node node1_id (\<lambda>n. n\<lparr>can_reach := (can_reach n)(node2_id \<mapsto> False)\<rparr>) w1;
            w3 = upd_node node2_id (\<lambda>n. n\<lparr>can_reach := (can_reach n)(node1_id \<mapsto> False)\<rparr>) w2;
            w4 = upd_node node1_id (\<lambda>n. n\<lparr>state := ISOLATED\<rparr>) w3;
            w5 = upd_node node2_id (\<lambda>n. n\<lparr>state := ISOLATED\<rparr>) w4
        in (Inr (), w5\<lparr>partition_active := True, partition_start_time := Some now\<rparr>))"

definition heal_partition :: "string \<Rightarrow> string \<Rightarrow> world \<Rightarrow> (exn + unit) \<times> world" where
  "heal_partition node1_id node2_id w =
     (let w1 = network_heal_partition node1_id node2_id w in
      if node1_id \<notin> set (sim_nodes w1) then (Inl (KeyError node1_id), w1)
      else if node2_id \<notin> set (sim_nodes w1) then (Inl (KeyError node2_id), w1)
      else
        let w2 = upd_node node1_id (\<lambda>n. n\<lparr>can_reach := (can_reach n)(node2_id \<mapsto> True)\<rparr>) w1;
            w3 = upd_node node2_id (\<lambda>n. n\<lparr>can_reach := (can_reach n)(node1_id \<mapsto> True)\<rparr>) w2;
            w4 = upd_node node1_id (\<lambda>n. n\<lparr>state := HEALTHY\<rparr>) w3;
            w5 = upd_node node2_id (\<lambda>n. n\<lparr>state := HEALTHY\<rparr>) w4
        in (Inr (), w5\<lparr>partition_active := False\<rparr>))"

section \<open>services/transfer_service.py\<close>

text \<open>
  The environment of one iteration of the Prepare or Commit loop: \<open>clock\<close> is the time
  read by the deadline test, \<open>lost\<close> the outcome of the packet-loss draw of
  \<open>send_message\<close>, and \<open>health_clock\<close> the time read by \<open>is_healthy\<close> (Prepare only).
\<close>

record step_env =
  clock :: real
  lost :: bool
  health_clock :: real

text \<open>
  The environment of one call of \<open>transfer\<close>: the eight hexadecimal digits drawn for
  the transaction id, the start time of each phase and the environment of the iterations
  of each loop, by position in the list of nodes.
\<close>

record transfer_env =
  uuid :: string
  prepare_start :: real
  prepare_steps :: "nat \<Rightarrow> step_env"
  commit_start :: real
  commit_steps :: "nat \<Rightarrow> step_env"

datatype vote = YES | NO

definition pre_checks :: "transaction \<Rightarrow> string \<Rightarrow> world \<Rightarrow> bool \<times> world" where
  "pre_checks tx master w =
     (case on_node master (get_balance (from_user tx) None) w of
        (balance, w1) \<Rightarrow>
          (case balance of
             None \<Rightarrow> (False, w1)
           | Some b \<Rightarrow>
               if b < amount tx then (False, w1)
               else (case on_node master (get_balance (to_user tx) None) w1 of
                       (to_balance, w2) \<Rightarrow>
                         (case to_balance of None \<Rightarrow> (False, w2) | Some tb \<Rightarrow> (True, w2)))))"

text \<open>
  \<open>_can_node_prepare\<close>: comparing a missing balance (\<open>None\<close>) with the amount raises
  \<open>TypeError\<close>.
\<close>

definition can_node_prepare :: "real \<Rightarrow> string \<Rightarrow> transaction \<Rightarrow> world \<Rightarrow> (exn + bool) \<times> world" where
  "can_node_prepare now nid tx w =
     (case on_node nid (is_healthy now) w of
        (healthy, w1) \<Rightarrow>
          if \<not> healthy then (Inr False, w1)
          else if is_master (nodes w1 nid) then
            (case on_node nid (get_balance (from_user tx) None) w1 of
               (balance, w2) \<Rightarrow>
                 (case balance of
                    None \<Rightarrow>
                      (Inl (TypeError ''>= not supported between instances of NoneType and int''), w2)
                  | Some b \<Rightarrow> (Inr (b \<ge> amount tx), w2)))
          else (Inr True, w1))"

text \<open>
  The body of the Prepare loop after the deadline test: the message to one participant
  and the vote recorded for it.
\<close>

definition prepare_vote ::
  "step_env \<Rightarrow> transaction \<Rightarrow> string \<Rightarrow> string \<Rightarrow> world \<Rightarrow> (exn + vote) \<times> world" where
  "prepare_vote e tx master nid w =
     (case send_message (lost e) master nid ''prepare'' w of
        (response, w1) \<Rightarrow>
          (case response of
             None \<Rightarrow> (Inr NO, w1)
           | Some r \<Rightarrow>
               (case can_node_prepare (health_clock e) nid tx w1 of
                  (Inl x, w2) \<Rightarrow> (Inl x, w2)
                | (Inr can_prepare, w2) \<Rightarrow> (Inr (if can_prepare then YES else NO), w2))))"

text \<open>
  The Prepare loop. The dictionary \<open>votes\<close> is an association list in insertion order;
  a second vote of the same node id replaces the first. \<open>i\<close> is the position of the
  iteration.
\<close>

fun prepare_votes ::
  "transaction \<Rightarrow> string \<Rightarrow> real \<Rightarrow> (nat \<Rightarrow> step_env) \<Rightarrow> nat \<Rightarrow> string list \<Rightarrow>
   (string \<times> vote) list \<Rightarrow> world \<Rightarrow> (exn + (string \<times> vote) list) \<times> world" where
  "prepare_votes tx master start env i [] votes w = (Inr votes, w)"
| "prepare_votes tx master start env i (nid # rest) votes w =
     (if clock (env i) - start > TIMEOUT_transfer
      then (Inl (TimeoutError ''Prepare phase timeout''), w)
      else (case prepare_vote (env i) tx master nid w of
              (Inl x, w1) \<Rightarrow> (Inl x, w1)
            | (Inr v, w1) \<Rightarrow>
                prepare_votes tx master start env (Suc i) rest (AList.update nid v votes) w1))"

definition prepare_phase ::
  "real \<Rightarrow> (nat \<Rightarrow> step_env) \<Rightarrow> transaction \<Rightarrow> string \<Rightarrow> string list \<Rightarrow> world \<Rightarrow>
   (exn + bool) \<times> transaction \<times> world" where
  "prepare_phase start env tx master replica_nodes w =
     (case prepare_votes tx master start env 0 (master # replica_nodes) [] w of
        (Inl x, w1) \<Rightarrow> (Inl x, tx, w1)
      | (Inr votes, w1) \<Rightarrow>
          if list_all (\<lambda>(nid, v). v = YES) votes then (Inr True, mark_prepared tx, w1)
          else (Inr False, tx, w1))"

text \<open>Python's \<open>x or y\<close> on an optional number: \<open>None\<close> and \<open>0\<close> are both false.\<close>

definition py_or :: "int option \<Rightarrow> int \<Rightarrow> int" where
  "py_or x y = (case x of None \<Rightarrow> y | Some v \<Rightarrow> if v = 0 then y else v)"

text \<open>
  The replication loop of the Commit phase. \<open>from_balance\<close> and \<open>to_balance\<close> are the
  balances read on the master before its own update. The response of \<open>send_message\<close>
  is never an empty dictionary, so it is true exactly when it is not \<open>None\<close>.
\<close>

fun commit_replicas ::
  "transaction \<Rightarrow> string \<Rightarrow> real \<Rightarrow> (nat \<Rightarrow> step_env) \<Rightarrow> nat \<Rightarrow> int \<Rightarrow> int \<Rightarrow> string list \<Rightarrow>
   world \<Rightarrow> world" where
  "commit_replicas tx master start env i from_balance to_balance [] w = w"
| "commit_replicas tx master start env i from_balance to_balance (nid # rest) w =
     (if clock (env i) - start > TIMEOUT_transfer then w
      else (case send_message (lost (env i)) master nid ''commit'' w of
              (response, w1) \<Rightarrow>
                (case response of
                   Some r \<Rightarrow>
                     (case on_node nid (get_balance (from_user tx) None) w1 of
                        (rf, w2) \<Rightarrow>
                          (case on_node nid (get_balance (to_user tx) None) w2 of
                             (rt, w3) \<Rightarrow>
                               (let from_bal = py_or rf from_balance;
                                    to_bal = py_or rt to_balance;
                                    w4 = upd_node nid (set_balance (from_user tx) (from_bal - amount tx)) w3;
                                    w5 = upd_node nid (set_balance (to_user tx) (to_bal + amount tx)) w4;
                                    w6 = upd_node nid (add_transaction nid tx) w5
                                in commit_replicas tx master start env (Suc i)
                                     from_balance to_balance rest w6)))
                 | None \<Rightarrow>
                     commit_replicas tx master start env (Suc i) from_balance to_balance rest w1)))"

text \<open>
  \<open>_commit_phase\<close>: subtracting from or adding to a missing balance raises \<open>TypeError\<close>;
  the second one is raised after the source has been debited.
\<close>

definition commit_phase ::
  "real \<Rightarrow> (nat \<Rightarrow> step_env) \<Rightarrow> transaction \<Rightarrow> string \<Rightarrow> string list \<Rightarrow> world \<Rightarrow>
   (exn + bool) \<times> world" where
  "commit_phase start env tx master replica_nodes w =
     (case on_node master (get_balance (from_user tx) None) w of
        (from_balance, w1) \<Rightarrow>
          (case on_node master (get_balance (to_user tx) None) w1 of
             (to_balance, w2) \<Rightarrow>
               (case from_balance of
                  None \<Rightarrow> (Inl (TypeError ''unsupported operand type(s) for -: NoneType and int''), w2)
                | Some fb \<Rightarrow>
                    (let w3 = upd_node master (set_balance (from_user tx) (fb - amount tx)) w2 in
                     case to_balance of
                       None \<Rightarrow>
                         (Inl (TypeError ''unsupported operand type(s) for +: NoneType and int''), w3)
                     | Some tb \<Rightarrow>
                         (let w4 = upd_node master (set_balance (to_user tx) (tb + amount tx)) w3;
                              w5 = upd_node master (add_transaction master tx) w4
                          in (Inr True,
                              commit_replicas tx master start env 0 fb tb replica_nodes w5))))))"

definition abort_transaction :: "transaction \<Rightarrow> string \<Rightarrow> world \<Rightarrow> result \<times> world" where
  "abort_transaction tx reason w =
     ([''success'' \<mapsto> PBool False,
       ''transaction_id'' \<mapsto> PStr (transaction_id tx),
       ''error'' \<mapsto> PStr reason],
      w\<lparr>aborted_transactions :=
          (aborted_transactions w)(transaction_id tx \<mapsto> mark_aborted reason tx)\<rparr>)"

text \<open>The two \<open>except\<close> clauses of \<open>transfer\<close>: the reason given to the abort.\<close>

definition exn_str :: "exn \<Rightarrow> string" where
  "exn_str x =
     (case x of
        TimeoutError m \<Rightarrow> m
      | TypeError m \<Rightarrow> m
      | KeyError k \<Rightarrow> [CHR 0x27] @ k @ [CHR 0x27])"

definition except_reason :: "exn \<Rightarrow> string" where
  "except_reason x =
     (case x of TimeoutError m \<Rightarrow> ''Timeout: '' @ m | _ \<Rightarrow> ''Error: '' @ exn_str x)"

definition transfer_tx :: "transfer_env \<Rightarrow> string \<Rightarrow> string \<Rightarrow> int \<Rightarrow> transaction" where
  "transfer_tx env fu tu amt = new_transaction (''TX_'' @ uuid env) TRANSFER fu tu amt Map.empty"

text \<open>\<open>transfer\<close>; its parameter \<open>strategy\<close> is never read and is left out.\<close>

definition transfer ::
  "transfer_env \<Rightarrow> string \<Rightarrow> string \<Rightarrow> int \<Rightarrow> string \<Rightarrow> string list \<Rightarrow> world \<Rightarrow> result \<times> world" where
  "transfer env fu tu amt master replica_nodes w =
     (let tx = transfer_tx env fu tu amt in
      case pre_checks tx master w of
        (ok, w1) \<Rightarrow>
          if \<not> ok then abort_transaction tx ''Pre-checks failed'' w1
          else
            (case prepare_phase (prepare_start env) (prepare_steps env) tx master replica_nodes w1 of
               (Inl x, tx1, w2) \<Rightarrow> abort_transaction tx1 (except_reason x) w2
             | (Inr False, tx1, w2) \<Rightarrow> abort_transaction tx1 ''Prepare phase failed'' w2
             | (Inr True, tx1, w2) \<Rightarrow>
                 (case commit_phase (commit_start env) (commit_steps env) tx1 master replica_nodes w2 of
                    (Inl x, w3) \<Rightarrow> abort_transaction tx1 (except_reason x) w3
                  | (Inr False, w3) \<Rightarrow> abort_transaction tx1 ''Commit phase failed'' w3
                  | (Inr True, w3) \<Rightarrow>
                      (let tx2 = mark_committed tx1;
                           w4 = w3\<lparr>committed_transactions :=
                                     (committed_transactions w3)(transaction_id tx2 \<mapsto> tx2)\<rparr>
                       in case on_node master (get_balance fu None) w4 of
                            (new_from, w5) \<Rightarrow>
                              (case on_node master (get_balance tu None) w5 of
                                 (new_to, w6) \<Rightarrow>
                                   ([''success'' \<mapsto> PBool True,
                                     ''transaction_id'' \<mapsto> PStr (transaction_id tx2),
                                     ''new_balance_from'' \<mapsto> opt_num new_from,
                                     ''new_balance_to'' \<mapsto> opt_num new_to], w6))))))"

text \<open>
  The votes cast by the Prepare loop, in order: one entry for every execution of the
  assignment \<open>votes[node.id] = ...\<close>, up to the point where the loop ends, times out or
  raises. It is the loop \<open>prepare_votes\<close> with the dictionary replaced by the list of the
  assignments made to it.
\<close>

fun votes_cast ::
  "transaction \<Rightarrow> string \<Rightarrow> real \<Rightarrow> (nat \<Rightarrow> step_env) \<Rightarrow> nat \<Rightarrow> string list \<Rightarrow> world \<Rightarrow>
   (string \<times> vote) list" where
  "votes_cast tx master start env i [] w = []"
| "votes_cast tx master start env i (nid # rest) w =
     (if clock (env i) - start > TIMEOUT_transfer then []
      else (case prepare_vote (env i) tx master nid w of
              (Inl x, w1) \<Rightarrow> []
            | (Inr v, w1) \<Rightarrow> (nid, v) # votes_cast tx master start env (Suc i) rest w1))"

text \<open>Whether some participant votes NO during the Prepare phase of a transfer.\<close>

definition cast_NO :: "transfer_env \<Rightarrow> transaction \<Rightarrow> string \<Rightarrow> string list \<Rightarrow> world \<Rightarrow> bool" where
  "cast_NO env tx master replica_nodes w =
     list_ex (\<lambda>(nid, v). v = NO)
       (votes_cast tx master (prepare_start env) (prepare_steps env) 0
          (master # replica_nodes) w)"

section \<open>services/payment_service.py\<close>

text \<open>
  The environment of one call of \<open>pay_bill\<close>: the digits drawn for the transaction id,
  the outcome of the random draw of \<open>_call_provider_api\<close>, the digits drawn for the
  receipt and the packet-loss draw of each replication message, by position.
\<close>

record payment_env =
  pay_uuid :: string
  provider_ok :: bool
  receipt_uuid :: string
  replicate_lost :: "nat \<Rightarrow> bool"

definition call_provider_api :: "payment_env \<Rightarrow> transaction \<Rightarrow> result" where
  "call_provider_api env tx =
     (if provider_ok env
      then [''success'' \<mapsto> PBool True, ''receipt_id'' \<mapsto> PStr (''RCPT_'' @ receipt_uuid env)]
      else [''success'' \<mapsto> PBool False, ''error'' \<mapsto> PStr ''Provider timeout''])"

text \<open>
  The functions of the payment service return the transaction object as they leave it,
  besides the result: the object is local to the call.
\<close>

definition fail_payment :: "transaction \<Rightarrow> string \<Rightarrow> world \<Rightarrow> result \<times> transaction \<times> world" where
  "fail_payment tx reason w =
     ([''success'' \<mapsto> PBool False,
       ''transaction_id'' \<mapsto> PStr (transaction_id tx),
       ''error'' \<mapsto> PStr reason],
      mark_failed reason tx,
      w\<lparr>failed_count := failed_count w + 1\<rparr>)"

text \<open>
  The replication loop of a strict payment: on a replica that has no balance for the
  user the subtraction raises \<open>TypeError\<close>.
\<close>

fun replicate_payment ::
  "(nat \<Rightarrow> bool) \<Rightarrow> nat \<Rightarrow> transaction \<Rightarrow> string \<Rightarrow> string list \<Rightarrow> world \<Rightarrow> (exn + unit) \<times> world" where
  "replicate_payment lost_at i tx master [] w = (Inr (), w)"
| "replicate_payment lost_at i tx master (nid # rest) w =
     (case send_message (lost_at i) master nid ''payment_replicate'' w of
        (response, w1) \<Rightarrow>
          (case response of
             Some r \<Rightarrow>
               (case on_node nid (get_balance (from_user tx) None) w1 of
                  (b, w2) \<Rightarrow>
                    (case b of
                       None \<Rightarrow>
                         (Inl (TypeError ''unsupported operand type(s) for -: NoneType and int''), w2)
                     | Some rb \<Rightarrow>
                         (let w3 = upd_node nid (set_balance (from_user tx) (rb - amount tx)) w2;
                              w4 = upd_node nid (add_transaction nid tx) w3
                          in replicate_payment lost_at (Suc i) tx master rest w4)))
           | None \<Rightarrow> replicate_payment lost_at (Suc i) tx master rest w1))"

definition pay_bill_cp_strict ::
  "payment_env \<Rightarrow> transaction \<Rightarrow> string \<Rightarrow> string list \<Rightarrow> world \<Rightarrow>
   (exn + result) \<times> transaction \<times> world" where
  "pay_bill_cp_strict env tx master replica_nodes w =
     (case on_node master (get_balance (from_user tx) None) w of
        (balance, w1) \<Rightarrow>
          (case balance of
             None \<Rightarrow>
               (Inl (TypeError ''unsupported operand type(s) for -: NoneType and int''), tx, w1)
           | Some b \<Rightarrow>
               (let w2 = upd_node master (set_balance (from_user tx) (b - amount tx)) w1;
                    provider_response = call_provider_api env tx
                in if provider_response ''success'' \<noteq> Some (PBool True) then
                     (let w3 = upd_node master (set_balance (from_user tx) b) w2 in
                      case fail_payment tx ''Provider API failed'' w3 of
                        (res, tx1, w4) \<Rightarrow> (Inr res, tx1, w4))
                   else
                     (case provider_response ''receipt_id'' of
                        None \<Rightarrow> (Inl (KeyError ''receipt_id''), tx, w2)
                      | Some receipt \<Rightarrow>
                          (let w3 = upd_node master (add_transaction master tx) w2 in
                           case replicate_payment (replicate_lost env) 0 tx master replica_nodes w3 of
                             (Inl x, w4) \<Rightarrow> (Inl x, tx, w4)
                           | (Inr u, w4) \<Rightarrow>
                               (let tx1 = mark_committed tx;
                                    w5 = w4\<lparr>success_count := success_count w4 + 1\<rparr>
                                in case on_node master (get_balance (from_user tx) None) w5 of
                                     (new_balance, w6) \<Rightarrow>
                                       (Inr [''success'' \<mapsto> PBool True,
                                             ''transaction_id'' \<mapsto> PStr (transaction_id tx1),
                                             ''receipt_id'' \<mapsto> receipt,
                                             ''new_balance'' \<mapsto> opt_num new_balance],
                                        tx1, w6)))))))"

definition pay_bill_adaptive ::
  "payment_env \<Rightarrow> transaction \<Rightarrow> string \<Rightarrow> string list \<Rightarrow> world \<Rightarrow>
   (exn + result) \<times> transaction \<times> world" where
  "pay_bill_adaptive env tx master replica_nodes w =
     (if amount tx < 5000 then
        (case on_node master (get_balance (from_user tx) None) w of
           (balance, w1) \<Rightarrow>
             (case balance of
                None \<Rightarrow>
                  (Inl (TypeError ''unsupported operand type(s) for -: NoneType and int''), tx, w1)
              | Some b \<Rightarrow>
                  (let w2 = upd_node master (set_balance (from_user tx) (b - amount tx)) w1;
                       tx1 = mark_committed (tx\<lparr>metadata := (metadata tx)(''queued'' \<mapsto> MBool True)\<rparr>);
                       w3 = w2\<lparr>success_count := success_count w2 + 1\<rparr>
                   in case on_node master (get_balance (from_user tx) None) w3 of
                        (new_balance, w4) \<Rightarrow>
                          (Inr [''success'' \<mapsto> PBool True,
                                ''transaction_id'' \<mapsto> PStr (transaction_id tx1),
                                ''status'' \<mapsto> PStr ''pending'',
                                ''message'' \<mapsto> PText,
                                ''new_balance'' \<mapsto> opt_num new_balance],
                           tx1, w4))))
      else pay_bill_cp_strict env tx master replica_nodes w)"

definition payment_tx :: "payment_env \<Rightarrow> string \<Rightarrow> string \<Rightarrow> int \<Rightarrow> transaction" where
  "payment_tx env user_id provider amt =
     new_transaction (''PAY_'' @ pay_uuid env) PAYMENT user_id provider amt
       [''provider'' \<mapsto> MStr provider]"

text \<open>
  \<open>pay_bill\<close>: an exception raised by the chosen strategy is caught and turned into a
  failed payment; the state reached when it was raised stays.
\<close>

definition pay_bill ::
  "payment_env \<Rightarrow> string \<Rightarrow> string \<Rightarrow> int \<Rightarrow> string \<Rightarrow> string list \<Rightarrow> string \<Rightarrow> world \<Rightarrow>
   result \<times> transaction \<times> world" where
  "pay_bill env user_id provider amt master replica_nodes strategy w =
     (let w0 = w\<lparr>payment_count := payment_count w + 1\<rparr>;
          tx = payment_tx env user_id provider amt
      in case on_node master (get_balance user_id None) w0 of
           (balance, w1) \<Rightarrow>
             if (case balance of None \<Rightarrow> True | Some b \<Rightarrow> b < amt)
             then fail_payment tx ''Insufficient balance'' w1
             else
               (case (if strategy = ''CP''
                      then pay_bill_cp_strict env tx master replica_nodes w1
                      else pay_bill_adaptive env tx master replica_nodes w1) of
                  (Inl x, tx1, w2) \<Rightarrow> fail_payment tx1 (exn_str x) w2
                | (Inr res, tx1, w2) \<Rightarrow> (res, tx1, w2)))"

section \<open>services/balance_service.py\<close>

text \<open>
  The environment of one balance or history query: \<open>cache_clock\<close> is the time read by
  the cache lookup, \<open>fill_clock\<close> the time read by \<open>_set_cache\<close>, and \<open>query_lost\<close> the
  packet-loss draw of the \<open>balance_query\<close> message (CP only).
\<close>

record query_env =
  cache_clock :: real
  fill_clock :: real
  query_lost :: bool

definition get_balance_ap :: "query_env \<Rightarrow> string \<Rightarrow> string \<Rightarrow> world \<Rightarrow> result \<times> world" where
  "get_balance_ap env user_id nid w =
     (case on_node nid (get_balance user_id (Some (cache_clock env))) w of
        (balance, w1) \<Rightarrow>
          (case balance of
             Some b \<Rightarrow>
               ([''success'' \<mapsto> PBool True,
                 ''balance'' \<mapsto> PNum b,
                 ''source'' \<mapsto> PStr ''cache'',
                 ''freshness'' \<mapsto> PStr ''cached''],
                w1\<lparr>cache_hits := cache_hits w1 + 1\<rparr>)
           | None \<Rightarrow>
               (let w2 = w1\<lparr>cache_misses := cache_misses w1 + 1\<rparr> in
                case on_node nid (get_balance user_id None) w2 of
                  (balance2, w3) \<Rightarrow>
                    (case balance2 of
                       Some b \<Rightarrow>
                         ([''success'' \<mapsto> PBool True,
                           ''balance'' \<mapsto> PNum b,
                           ''source'' \<mapsto> PStr ''replica_local'',
                           ''freshness'' \<mapsto> PStr ''recent'',
                           ''warning'' \<mapsto> PText],
                          upd_node nid
                            (\<lambda>n. n\<lparr>balance_cache :=
                                      set_cache (fill_clock env) user_id b CACHE_TTL_balance
                                        (balance_cache n)\<rparr>) w3)
                     | None \<Rightarrow>
                         ([''success'' \<mapsto> PBool False, ''error'' \<mapsto> PStr ''Account not found''],
                          w3)))))"

definition get_balance_cp ::
  "query_env \<Rightarrow> string \<Rightarrow> string \<Rightarrow> string option \<Rightarrow> world \<Rightarrow> result \<times> world" where
  "get_balance_cp env user_id nid master_node w =
     (case master_node of
        None \<Rightarrow>
          ([''success'' \<mapsto> PBool False,
            ''error'' \<mapsto> PStr ''Master node required for CP strategy''], w)
      | Some master \<Rightarrow>
          if \<not> can_reach_master (nodes w nid) master then
            ([''success'' \<mapsto> PBool False,
              ''error'' \<mapsto> PStr ''Service temporarily unavailable'',
              ''reason'' \<mapsto> PStr ''Cannot reach master node''], w)
          else
            (case send_message (query_lost env) nid master ''balance_query'' w of
               (response, w1) \<Rightarrow>
                 (case response of
                    None \<Rightarrow>
                      ([''success'' \<mapsto> PBool False,
                        ''error'' \<mapsto> PStr ''Service temporarily unavailable''], w1)
                  | Some r \<Rightarrow>
                      (case on_node master (get_balance user_id None) w1 of
                         (balance, w2) \<Rightarrow>
                           (case balance of
                              Some b \<Rightarrow>
                                ([''success'' \<mapsto> PBool True,
                                  ''balance'' \<mapsto> PNum b,
                                  ''source'' \<mapsto> PStr ''master'',
                                  ''freshness'' \<mapsto> PStr ''guaranteed_accurate''], w2)
                            | None \<Rightarrow>
                                ([''success'' \<mapsto> PBool False,
                                  ''error'' \<mapsto> PStr ''Account not found''], w2))))))"

text \<open>\<open>BalanceService.get_balance\<close>.\<close>

definition service_get_balance ::
  "query_env \<Rightarrow> string \<Rightarrow> string \<Rightarrow> string option \<Rightarrow> string \<Rightarrow> world \<Rightarrow> result \<times> world" where
  "service_get_balance env user_id nid master_node strategy w =
     (let w0 = w\<lparr>query_count := query_count w + 1\<rparr> in
      if strategy = ''AP'' then get_balance_ap env user_id nid w0
      else get_balance_cp env user_id nid master_node w0)"

section \<open>services/history_service.py\<close>

text \<open>Python's slice \<open>xs[:limit]\<close>; a negative limit counts from the end.\<close>

definition py_take :: "int \<Rightarrow> 'a list \<Rightarrow> 'a list" where
  "py_take limit xs =
     (if 0 \<le> limit then take (nat limit) xs else take (length xs - nat (- limit)) xs)"

definition get_history :: "query_env \<Rightarrow> string \<Rightarrow> string \<Rightarrow> int \<Rightarrow> world \<Rightarrow> result \<times> world" where
  "get_history env user_id nid limit w =
     (let w0 = w\<lparr>history_query_count := history_query_count w + 1\<rparr> in
      case on_node nid
             (\<lambda>n. case get_from_cache (cache_clock env) user_id (history_cache n) of
                     (cached, c) \<Rightarrow> (cached, n\<lparr>history_cache := c\<rparr>)) w0 of
        (cached_history, w1) \<Rightarrow>
          (case cached_history of
             Some h \<Rightarrow>
               ([''success'' \<mapsto> PBool True,
                 ''transactions'' \<mapsto> PTxs (py_take limit h),
                 ''count'' \<mapsto> PNum (int (length h)),
                 ''source'' \<mapsto> PStr ''cache''], w1)
           | None \<Rightarrow>
               (case on_node nid (get_transactions user_id None) w1 of
                  (txs, w2) \<Rightarrow>
                    if txs \<noteq> [] then
                      ([''success'' \<mapsto> PBool True,
                        ''transactions'' \<mapsto> PTxs (py_take limit txs),
                        ''count'' \<mapsto> PNum (int (length txs)),
                        ''source'' \<mapsto> PStr ''replica_local'',
                        ''warning'' \<mapsto> PText],
                       upd_node nid
                         (\<lambda>n. n\<lparr>history_cache :=
                                   set_cache (fill_clock env) user_id txs CACHE_TTL_history
                                     (history_cache n)\<rparr>) w2)
                    else
                      ([''success'' \<mapsto> PBool True,
                        ''transactions'' \<mapsto> PTxs [],
                        ''count'' \<mapsto> PNum 0,
                        ''source'' \<mapsto> PStr ''replica_local''], w2))))"

section \<open>strategies/pure_cp_strategy.py\<close>

text \<open>
  Each operation takes the calling node \<open>nid\<close>, the master and, where the service needs
  them, the replicas. The strategy returns the result dictionary of the service. The two
  strategy classes name their methods alike; the methods of \<open>PureCPStrategy\<close> carry the
  prefix \<open>cp_\<close> here and those of \<open>AdaptiveStrategy\<close> the prefix \<open>adaptive_\<close>.
\<close>

definition cp_execute_transfer ::
  "transfer_env \<Rightarrow> string \<Rightarrow> string \<Rightarrow> int \<Rightarrow> string \<Rightarrow> string \<Rightarrow> string list \<Rightarrow> world \<Rightarrow>
   result \<times> world" where
  "cp_execute_transfer env fu tu amt nid master replica_nodes w =
     (if \<not> can_reach_master (nodes w nid) master then
        ([''success'' \<mapsto> PBool False,
          ''error'' \<mapsto> PStr ''Service temporarily unavailable'',
          ''reason'' \<mapsto> PStr ''Cannot reach master node (network partition)'',
          ''strategy'' \<mapsto> PStr ''CP_STRICT''], w)
      else transfer env fu tu amt master replica_nodes w)"

definition cp_execute_balance_query ::
  "query_env \<Rightarrow> string \<Rightarrow> string \<Rightarrow> string \<Rightarrow> world \<Rightarrow> result \<times> world" where
  "cp_execute_balance_query env user_id nid master w =
     (if \<not> can_reach_master (nodes w nid) master then
        ([''success'' \<mapsto> PBool False,
          ''error'' \<mapsto> PStr ''Service temporarily unavailable'',
          ''reason'' \<mapsto> PStr ''Cannot reach master node'',
          ''strategy'' \<mapsto> PStr ''CP_STRICT''], w)
      else service_get_balance env user_id nid (Some master) ''CP'' w)"

definition cp_execute_history_query ::
  "query_env \<Rightarrow> string \<Rightarrow> string \<Rightarrow> string \<Rightarrow> world \<Rightarrow> result \<times> world" where
  "cp_execute_history_query env user_id nid master w =
     (if \<not> can_reach_master (nodes w nid) master then
        ([''success'' \<mapsto> PBool False,
          ''error'' \<mapsto> PStr ''Service temporarily unavailable'',
          ''reason'' \<mapsto> PStr ''Cannot reach master node'',
          ''strategy'' \<mapsto> PStr ''CP_STRICT''], w)
      else get_history env user_id master 50 w)"

definition cp_execute_payment ::
  "payment_env \<Rightarrow> string \<Rightarrow> string \<Rightarrow> int \<Rightarrow> string \<Rightarrow> string \<Rightarrow> string list \<Rightarrow> world \<Rightarrow>
   result \<times> world" where
  "cp_execute_payment env user_id provider amt nid master replica_nodes w =
     (if \<not> can_reach_master (nodes w nid) master then
        ([''success'' \<mapsto> PBool False,
          ''error'' \<mapsto> PStr ''Service temporarily unavailable'',
          ''reason'' \<mapsto> PStr ''Cannot reach master node'',
          ''strategy'' \<mapsto> PStr ''CP_STRICT''], w)
      else (case pay_bill env user_id provider amt master replica_nodes ''CP'' w of
              (res, tx, w1) \<Rightarrow> (res, w1)))"

section \<open>strategies/adaptive_strategy.py\<close>

definition adaptive_execute_transfer ::
  "transfer_env \<Rightarrow> string \<Rightarrow> string \<Rightarrow> int \<Rightarrow> string \<Rightarrow> string \<Rightarrow> string list \<Rightarrow> world \<Rightarrow>
   result \<times> world" where
  "adaptive_execute_transfer env fu tu amt nid master replica_nodes w =
     (if \<not> can_reach_master (nodes w nid) master then
        ([''success'' \<mapsto> PBool False,
          ''error'' \<mapsto> PStr ''Transferts temporairement indisponibles'',
          ''reason'' \<mapsto> PText,
          ''message'' \<mapsto> PText,
          ''available_actions'' \<mapsto> PStrs [''consulter_solde'', ''voir_historique''],
          ''strategy'' \<mapsto> PStr ''ADAPTIVE_CP''], w)
      else transfer env fu tu amt master replica_nodes w)"

definition adaptive_execute_balance_query ::
  "query_env \<Rightarrow> string \<Rightarrow> string \<Rightarrow> string \<Rightarrow> string \<Rightarrow> world \<Rightarrow> result \<times> world" where
  "adaptive_execute_balance_query env user_id nid master context w =
     (if context = ''pre_transfer'' then
        (if \<not> can_reach_master (nodes w nid) master then
           ([''success'' \<mapsto> PBool False,
             ''error'' \<mapsto> PStr ''Cannot verify balance'',
             ''strategy'' \<mapsto> PStr ''ADAPTIVE_CP''], w)
         else service_get_balance env user_id nid (Some master) ''CP'' w)
      else
        (case service_get_balance env user_id nid (Some master) ''AP'' w of
           (res, w1) \<Rightarrow>
             if \<not> can_reach_master (nodes w1 nid) master
             then (res(''warning'' \<mapsto> PText, ''partition_mode'' \<mapsto> PBool True), w1)
             else (res, w1)))"

definition adaptive_execute_history_query ::
  "query_env \<Rightarrow> string \<Rightarrow> string \<Rightarrow> string \<Rightarrow> world \<Rightarrow> result \<times> world" where
  "adaptive_execute_history_query env user_id nid master w =
     (case get_history env user_id nid 50 w of
        (res, w1) \<Rightarrow>
          if \<not> can_reach_master (nodes w1 nid) master
          then (res(''warning'' \<mapsto> PText, ''partition_mode'' \<mapsto> PBool True), w1)
          else (res, w1))"

text \<open>
  \<open>execute_payment\<close>: \<open>stamp\<close> is the decimal text of \<open>int(time.time())\<close>, read only on
  the queued branch.
\<close>

definition adaptive_execute_payment ::
  "payment_env \<Rightarrow> string \<Rightarrow> string \<Rightarrow> string \<Rightarrow> int \<Rightarrow> string \<Rightarrow> string \<Rightarrow> string list \<Rightarrow> world \<Rightarrow>
   result \<times> world" where
  "adaptive_execute_payment env stamp user_id provider amt nid master replica_nodes w =
     (if \<not> can_reach_master (nodes w nid) master then
        (if amt < 5000 then
           ([''success'' \<mapsto> PBool True,
             ''transaction_id'' \<mapsto> PStr (''queue_'' @ stamp),
             ''status'' \<mapsto> PStr ''queued'',
             ''message'' \<mapsto> PText,
             ''warning'' \<mapsto> PText,
             ''partition_mode'' \<mapsto> PBool True,
             ''strategy'' \<mapsto> PStr ''ADAPTIVE_AP_QUEUE''], w)
         else
           ([''success'' \<mapsto> PBool False,
             ''error'' \<mapsto> PStr ''Paiements gros montants temporairement indisponibles'',
             ''reason'' \<mapsto> PText,
             ''message'' \<mapsto> PText,
             ''strategy'' \<mapsto> PStr ''ADAPTIVE''], w))
      else (case pay_bill env user_id provider amt master replica_nodes ''ADAPTIVE'' w of
              (res, tx, w1) \<Rightarrow> (res, w1)))"

section \<open>run_simulation.py: the three nodes of the driver\<close>

text \<open>
  \<open>initialize_nodes\<close> creates the master Dakar and the replicas Saint-Louis and
  Ziguinchor, copies the seed accounts to each of them and marks every node reachable from
  every node. The seed file is not part of the sources; two accounts with the balances
  10000 and 5000 stand for it. The network starts in the mode \<open>normal\<close>, and the partition
  simulator is built with the three nodes. Every other reference of the store is a node
  that is never used.
\<close>

definition seed_node :: "NodeRole \<Rightarrow> node" where
  "seed_node r =
     (new_node 0 r)
       \<lparr>accounts := [''user_001'' \<mapsto> 10000, ''user_002'' \<mapsto> 5000],
        can_reach := [''DAKAR'' \<mapsto> True, ''SAINT_LOUIS'' \<mapsto> True, ''ZIGUINCHOR'' \<mapsto> True]\<rparr>"

definition seed_world :: world where
  "seed_world =
     \<lparr>nodes = (\<lambda>nid. new_node 0 REPLICA_RO)
                (''DAKAR'' := seed_node MASTER,
                 ''SAINT_LOUIS'' := seed_node REPLICA_RW,
                 ''ZIGUINCHOR'' := seed_node REPLICA_ANALYTICS),
      LATENCIES = NetworkConfig_LATENCIES,
      mode = Normal,
      communication_log = [],
      sim_nodes = [''DAKAR'', ''SAINT_LOUIS'', ''ZIGUINCHOR''],
      partition_active = False,
      partition_start_time = None,
      committed_transactions = Map.empty,
      aborted_transactions = Map.empty,
      payment_count = 0,
      success_count = 0,
      failed_count = 0,
      query_count = 0,
      cache_hits = 0,
      cache_misses = 0,
      history_query_count = 0\<rparr>"

text \<open>An environment without timeouts in which no packet is lost.\<close>

definition calm :: "nat \<Rightarrow> step_env" where
  "calm i = \<lparr>clock = 0, lost = False, health_clock = 0\<rparr>"

definition calm_env :: transfer_env where
  "calm_env =
     \<lparr>uuid = ''0a1b2c3d'', prepare_start = 0, prepare_steps = calm,
      commit_start = 0, commit_steps = calm\<rparr>"

text \<open>An environment in which the Prepare message to the third participant is lost.\<close>

definition lossy_env :: transfer_env where
  "lossy_env =
     \<lparr>uuid = ''0a1b2c3d'', prepare_start = 0,
      prepare_steps = (\<lambda>i. \<lparr>clock = 0, lost = (i = 2), health_clock = 0\<rparr>),
      commit_start = 0, commit_steps = calm\<rparr>"

text \<open>
  An environment in which the Prepare message to the second participant is lost and the
  deadline has passed when the loop comes to the third participant.
\<close>

definition late_lossy_env :: transfer_env where
  "late_lossy_env =
     \<lparr>uuid = ''0a1b2c3d'', prepare_start = 0,
      prepare_steps = (\<lambda>i. \<lparr>clock = (if i = 2 then 10 else 0), lost = (i = 1), health_clock = 0\<rparr>),
      commit_start = 0, commit_steps = calm\<rparr>"

text \<open>An environment in which only the Prepare message to the second participant is lost.\<close>

definition second_lost_env :: transfer_env where
  "second_lost_env =
     \<lparr>uuid = ''0a1b2c3d'', prepare_start = 0,
      prepare_steps = (\<lambda>i. \<lparr>clock = 0, lost = (i = 1), health_clock = 0\<rparr>),
      commit_start = 0, commit_steps = calm\<rparr>"

text \<open>The state of the driver after the partition between Dakar and Ziguinchor is created.\<close>

definition partitioned_world :: world where
  "partitioned_world = snd (create_partition 1 ''DAKAR'' ''ZIGUINCHOR'' seed_world)"

definition demo_payment_env :: payment_env where
  "demo_payment_env =
     \<lparr>pay_uuid = ''9f8e7d6c'', provider_ok = True, receipt_uuid = ''11223344'',
      replicate_lost = (\<lambda>i. False)\<rparr>"

definition failing_provider_env :: payment_env where
  "failing_provider_env =
     \<lparr>pay_uuid = ''9f8e7d6c'', provider_ok = False, receipt_uuid = ''11223344'',
      replicate_lost = (\<lambda>i. False)\<rparr>"

definition demo_query_env :: query_env where
  "demo_query_env = \<lparr>cache_clock = 0, fill_clock = 0, query_lost = False\<rparr>"

text \<open>
  A state in which every node holds 15000 for \<open>user_001\<close> and 0 for \<open>user_002\<close>, and
  an environment in which the Commit message to the second replica is lost.
\<close>

definition early_world :: world where
  "early_world =
     upd_node ''DAKAR'' (\<lambda>n. n\<lparr>accounts := [''user_001'' \<mapsto> 15000, ''user_002'' \<mapsto> 0]\<rparr>)
       (upd_node ''SAINT_LOUIS'' (\<lambda>n. n\<lparr>accounts := [''user_001'' \<mapsto> 15000, ''user_002'' \<mapsto> 0]\<rparr>)
          (upd_node ''ZIGUINCHOR''
             (\<lambda>n. n\<lparr>accounts := [''user_001'' \<mapsto> 15000, ''user_002'' \<mapsto> 0]\<rparr>) seed_world))"

definition commit_lossy_env :: transfer_env where
  "commit_lossy_env =
     \<lparr>uuid = ''4e5f6a7b'', prepare_start = 0, prepare_steps = calm,
      commit_start = 0,
      commit_steps = (\<lambda>i. \<lparr>clock = 0, lost = (i = 1), health_clock = 0\<rparr>)\<rparr>"

text \<open>
  A state in which the replica Ziguinchor lags behind the master: it is the state above
  after 5000 were transferred from \<open>user_001\<close> to \<open>user_002\<close> and the Commit message to
  Ziguinchor was lost, as far as the balance maps go. The master and Saint-Louis hold
  10000 and 5000; Ziguinchor still holds 15000 and 0.
\<close>

definition lagging_world :: world where
  "lagging_world =
     upd_node ''ZIGUINCHOR''
       (\<lambda>n. n\<lparr>accounts := [''user_001'' \<mapsto> 15000, ''user_002'' \<mapsto> 0]\<rparr>) seed_world"

text \<open>
  A state in which Saint-Louis caches the balance 9000 of \<open>user_001\<close> until the instant
  60, and a query whose cache lookup reads the clock at 100.
\<close>

definition stale_cache_world :: world where
  "stale_cache_world =
     upd_node ''SAINT_LOUIS'' (\<lambda>n. n\<lparr>balance_cache := [''user_001'' \<mapsto> (9000, 60)]\<rparr>) seed_world"

definition late_query_env :: query_env where
  "late_query_env = \<lparr>cache_clock = 100, fill_clock = 101, query_lost = False\<rparr>"

definition early_query_env :: query_env where
  "early_query_env = \<lparr>cache_clock = 30, fill_clock = 31, query_lost = False\<rparr>"

section \<open>Predicates used to state the claims\<close>

text \<open>
  A denial of the strict strategy: the result is a failure whose reason begins with
  \<open>Cannot reach master node\<close>, and the state after the call is the state \<open>w\<close> before it.
\<close>

definition cannot_reach_master_failure :: "result \<times> world \<Rightarrow> world \<Rightarrow> bool" where
  "cannot_reach_master_failure rw w =
     (fst rw ''success'' = Some (PBool False)
      \<and> (case fst rw ''reason'' of
            Some (PStr s) \<Rightarrow> prefix ''Cannot reach master node'' s
          | _ \<Rightarrow> False)
      \<and> snd rw = w)"

section \<open>Unfolding sets for evaluation on concrete states\<close>

lemmas node_defs = get_balance_def set_balance_def add_transaction_def is_healthy_def
  is_master_def new_node_def seed_node_def on_node_def upd_node_def get_from_cache_def
  invalidate_cache_def set_cache_def can_reach_master_def

lemmas transfer_defs = transfer_def transfer_tx_def new_transaction_def pre_checks_def
  prepare_phase_def prepare_vote_def can_node_prepare_def send_message_def commit_phase_def
  abort_transaction_def py_or_def TIMEOUT_transfer_def mark_prepared_def mark_committed_def
  mark_aborted_def opt_num_def calm_def calm_env_def lossy_env_def commit_lossy_env_def
  late_lossy_env_def second_lost_env_def

section \<open>Balance maps are untouched outside the Commit phase\<close>

lemma accounts_get_balance [simp]: "accounts (snd (get_balance u c n)) = accounts n"
  by (simp add: get_balance_def Let_def split: option.splits prod.splits)

lemma accounts_is_healthy [simp]: "accounts (snd (is_healthy now n)) = accounts n"
  by (simp add: is_healthy_def)

lemma balances_on_node:
  assumes "\<And>n. accounts (snd (f n)) = accounts n"
  shows "balances (snd (on_node nid f w)) = balances w"
proof
  fix k
  obtain r n' where f: "f (nodes w nid) = (r, n')" by (cases "f (nodes w nid)")
  with assms [of "nodes w nid"] have "accounts n' = accounts (nodes w nid)" by simp
  with f show "balances (snd (on_node nid f w)) k = balances w k"
    by (simp add: balances_def on_node_def)
qed

lemma balances_get_balance [simp]:
  "balances (snd (on_node nid (get_balance u c) w)) = balances w"
  by (rule balances_on_node) simp

lemma balances_is_healthy [simp]:
  "balances (snd (on_node nid (is_healthy now) w)) = balances w"
  by (rule balances_on_node) simp

lemma balances_send_message [simp]:
  "balances (snd (send_message l a b t w)) = balances w"
  by (simp add: send_message_def balances_def fun_eq_iff)

lemma on_node_get_balance_bal:
  "on_node nid (get_balance u c) w = (r, w') \<Longrightarrow> balances w' = balances w"
  using balances_get_balance [of nid u c w] by simp

lemma balances_pre_checks [simp]: "balances (snd (pre_checks tx master w)) = balances w"
  unfolding pre_checks_def
  by (auto split: prod.splits option.splits dest!: on_node_get_balance_bal)


lemma on_node_is_healthy_bal:
  "on_node nid (is_healthy now) w = (r, w') \<Longrightarrow> balances w' = balances w"
  using balances_is_healthy [of nid now w] by simp

lemma send_message_bal:
  "send_message l a b t w = (r, w') \<Longrightarrow> balances w' = balances w"
  using balances_send_message [of l a b t w] by simp

lemma can_node_prepare_bal:
  "can_node_prepare now nid tx w = (r, w') \<Longrightarrow> balances w' = balances w"
  unfolding can_node_prepare_def
  by (auto split: prod.splits option.splits if_splits
           dest!: on_node_get_balance_bal on_node_is_healthy_bal)

lemma prepare_vote_bal:
  "prepare_vote e tx master nid w = (r, w') \<Longrightarrow> balances w' = balances w"
  unfolding prepare_vote_def
  by (auto split: prod.splits option.splits sum.splits
           dest!: send_message_bal can_node_prepare_bal)

lemma prepare_votes_bal:
  "prepare_votes tx master start env i ps votes w = (r, w') \<Longrightarrow> balances w' = balances w"
proof (induction ps arbitrary: i votes w)
  case Nil
  then show ?case by simp
next
  case (Cons nid rest)
  show ?case
  proof (cases "clock (env i) - start > TIMEOUT_transfer")
    case True
    with Cons.prems show ?thesis by simp
  next
    case False
    obtain v w1 where pv: "prepare_vote (env i) tx master nid w = (v, w1)"
      by (cases "prepare_vote (env i) tx master nid w")
    then have b1: "balances w1 = balances w" by (rule prepare_vote_bal)
    show ?thesis
    proof (cases v)
      case (Inl x)
      with Cons.prems False pv b1 show ?thesis by simp
    next
      case (Inr vt)
      with Cons.prems False pv
      have "prepare_votes tx master start env (Suc i) rest (AList.update nid vt votes) w1 = (r, w')"
        by simp
      then have "balances w' = balances w1" by (rule Cons.IH)
      with b1 show ?thesis by simp
    qed
  qed
qed

lemma prepare_phase_bal:
  "prepare_phase start env tx master reps w = (r, tx', w') \<Longrightarrow> balances w' = balances w"
  unfolding prepare_phase_def
  by (auto simp del: prepare_votes.simps split: prod.splits sum.splits if_splits
           dest!: prepare_votes_bal)

lemma abort_transaction_bal:
  "abort_transaction tx reason w = (r, w') \<Longrightarrow> balances w' = balances w"
  by (auto simp: abort_transaction_def balances_def fun_eq_iff)

lemma abort_transaction_success:
  "fst (abort_transaction tx reason w) ''success'' = Some (PBool False)"
  by (simp add: abort_transaction_def)

text \<open>
  The votes are kept in a dictionary keyed by the node id. When the participants are
  distinct nodes, as in the driver, every vote cast stays in the dictionary that the loop
  returns. (If a node is listed twice, its second vote replaces the first.)
\<close>

lemma prepare_votes_keeps_other:
  "prepare_votes tx m start env i ps votes w = (Inr vs, w') \<Longrightarrow> k \<notin> set ps \<Longrightarrow>
   map_of vs k = map_of votes k"
proof (induction ps arbitrary: i votes w)
  case Nil
  then show ?case by simp
next
  case (Cons nid rest)
  from Cons.prems(2) have ne: "k \<noteq> nid" and nin: "k \<notin> set rest" by auto
  from Cons.prems(1) have nt: "\<not> clock (env i) - start > TIMEOUT_transfer"
    by (auto split: if_splits)
  obtain v w1 where pv: "prepare_vote (env i) tx m nid w = (v, w1)"
    by (cases "prepare_vote (env i) tx m nid w")
  with Cons.prems(1) nt obtain vt where vt: "v = Inr vt"
    by (cases v) auto
  with Cons.prems(1) nt pv have
    "prepare_votes tx m start env (Suc i) rest (AList.update nid vt votes) w1 = (Inr vs, w')"
    by simp
  from Cons.IH [OF this nin] ne show ?case by (simp add: update_conv')
qed

lemma votes_cast_in_votes:
  "prepare_votes tx m start env i ps votes w = (Inr vs, w') \<Longrightarrow> distinct ps \<Longrightarrow>
   (nid, v) \<in> set (votes_cast tx m start env i ps w) \<Longrightarrow> map_of vs nid = Some v"
proof (induction ps arbitrary: i votes w)
  case Nil
  then show ?case by simp
next
  case (Cons nid0 rest)
  from Cons.prems(2) have nin: "nid0 \<notin> set rest" and dr: "distinct rest" by auto
  from Cons.prems(1) have nt: "\<not> clock (env i) - start > TIMEOUT_transfer"
    by (auto split: if_splits)
  obtain r w1 where pv: "prepare_vote (env i) tx m nid0 w = (r, w1)"
    by (cases "prepare_vote (env i) tx m nid0 w")
  with Cons.prems(1) nt obtain vt where vt: "r = Inr vt"
    by (cases r) auto
  with Cons.prems(1) nt pv have rec:
    "prepare_votes tx m start env (Suc i) rest (AList.update nid0 vt votes) w1 = (Inr vs, w')"
    by simp
  from Cons.prems(3) nt pv vt have
    "(nid, v) = (nid0, vt) \<or> (nid, v) \<in> set (votes_cast tx m start env (Suc i) rest w1)"
    by simp
  then show ?case
  proof
    assume "(nid, v) = (nid0, vt)"
    with prepare_votes_keeps_other [OF rec nin] show ?thesis
      by (simp add: update_conv')
  next
    assume "(nid, v) \<in> set (votes_cast tx m start env (Suc i) rest w1)"
    with rec dr show ?thesis by (rule Cons.IH)
  qed
qed

text \<open>
  The dictionary returned by the loop is the list of the votes cast, written into the
  dictionary one after the other.
\<close>

lemma prepare_votes_fold:
  "prepare_votes tx m start env i ps votes w = (Inr vs, w') \<Longrightarrow>
   vs = fold (\<lambda>(k, v). AList.update k v) (votes_cast tx m start env i ps w) votes"
proof (induction ps arbitrary: i votes w)
  case Nil
  then show ?case by simp
next
  case (Cons nid0 rest)
  from Cons.prems have nt: "\<not> clock (env i) - start > TIMEOUT_transfer"
    by (auto split: if_splits)
  obtain r w1 where pv: "prepare_vote (env i) tx m nid0 w = (r, w1)"
    by (cases "prepare_vote (env i) tx m nid0 w")
  with Cons.prems nt obtain vt where vt: "r = Inr vt"
    by (cases r) auto
  with Cons.prems nt pv have
    "prepare_votes tx m start env (Suc i) rest (AList.update nid0 vt votes) w1 = (Inr vs, w')"
    by simp
  from Cons.IH [OF this] nt pv vt show ?case by simp
qed

lemma cast_NO_not_prepared:
  assumes dist: "distinct (master # reps)"
      and cast: "cast_NO env tx master reps w"
  shows "fst (prepare_phase (prepare_start env) (prepare_steps env) tx master reps w) \<noteq> Inr True"
proof -
  obtain r w' where pv:
    "prepare_votes tx master (prepare_start env) (prepare_steps env) 0 (master # reps) [] w = (r, w')"
    by (cases "prepare_votes tx master (prepare_start env) (prepare_steps env) 0
                 (master # reps) [] w")
  show ?thesis
  proof (cases r)
    case (Inl x)
    with pv show ?thesis by (simp del: prepare_votes.simps add: prepare_phase_def)
  next
    case (Inr vs)
    from cast obtain nid where
      "(nid, NO) \<in> set (votes_cast tx master (prepare_start env) (prepare_steps env) 0
                          (master # reps) w)"
      by (auto simp del: votes_cast.simps simp: cast_NO_def list_ex_iff)
    with votes_cast_in_votes [OF pv [unfolded Inr] dist] have "map_of vs nid = Some NO"
      by blast
    then have "(nid, NO) \<in> set vs" by (rule map_of_SomeD)
    then have "\<not> list_all (\<lambda>(nid, v). v = YES) vs" by (auto simp: list_all_iff)
    with pv Inr show ?thesis by (simp del: prepare_votes.simps add: prepare_phase_def)
  qed
qed

section \<open>Claims about the strategies\<close>

lemmas partition_defs = partitioned_world_def create_partition_def simulate_partition_def
  set_latency_def latencies_def seed_world_def

lemma unreachable_from_ziguinchor:
  "\<not> can_reach_master (nodes partitioned_world ''ZIGUINCHOR'') ''DAKAR''"
  by (simp add: partition_defs node_defs)

text \<open>
  C7 (StrictCP partition denial). For each of the four operations of the strict strategy
  (transfer, balance query, history query, payment): if the calling node cannot reach the
  master according to \<open>can_reach_master\<close>, the operation returns a failure whose reason
  begins with \<open>Cannot reach master node\<close>, and the whole state (nodes, network, services)
  after the call is the state before it, so the underlying service was not invoked.
\<close>

theorem strict_cp_partition_denial:
  assumes "\<not> can_reach_master (nodes w nid) master"
  shows "cannot_reach_master_failure
           (cp_execute_transfer tenv fu tu amt nid master replica_nodes w) w
       \<and> cannot_reach_master_failure (cp_execute_balance_query qenv user_id nid master w) w
       \<and> cannot_reach_master_failure (cp_execute_history_query qenv user_id nid master w) w
       \<and> cannot_reach_master_failure
           (cp_execute_payment penv user_id provider amt nid master replica_nodes w) w"
  using assms
  by (simp add: cannot_reach_master_failure_def cp_execute_transfer_def
        cp_execute_balance_query_def cp_execute_history_query_def cp_execute_payment_def)

theorem strict_cp_partition_denial_witness:
  "\<not> can_reach_master (nodes partitioned_world ''ZIGUINCHOR'') ''DAKAR''
   \<and> cannot_reach_master_failure
       (cp_execute_transfer calm_env ''user_001'' ''user_002'' 2000 ''ZIGUINCHOR'' ''DAKAR''
          [''SAINT_LOUIS'', ''ZIGUINCHOR''] partitioned_world) partitioned_world
   \<and> cannot_reach_master_failure
       (cp_execute_balance_query demo_query_env ''user_001'' ''ZIGUINCHOR'' ''DAKAR''
          partitioned_world) partitioned_world
   \<and> cannot_reach_master_failure
       (cp_execute_history_query demo_query_env ''user_001'' ''ZIGUINCHOR'' ''DAKAR''
          partitioned_world) partitioned_world
   \<and> cannot_reach_master_failure
       (cp_execute_payment demo_payment_env ''user_001'' ''SENELEC'' 6000 ''ZIGUINCHOR'' ''DAKAR''
          [''SAINT_LOUIS'', ''ZIGUINCHOR''] partitioned_world) partitioned_world"
  using strict_cp_partition_denial [OF unreachable_from_ziguinchor] unreachable_from_ziguinchor
  by simp

text \<open>
  C8 (Adaptive payment under partition). For every payment of the adaptive strategy whose
  calling node cannot reach the master: an amount below 5000 gives \<open>success = True\<close> with
  the status \<open>queued\<close> and \<open>partition_mode\<close> set; an amount of at least 5000 gives
  \<open>success = False\<close>.
\<close>

theorem adaptive_payment_under_partition:
  assumes "\<not> can_reach_master (nodes w nid) master"
  shows "(amt < 5000 \<longrightarrow>
            fst (adaptive_execute_payment env stamp user_id provider amt nid master replica_nodes w)
              ''success'' = Some (PBool True)
          \<and> fst (adaptive_execute_payment env stamp user_id provider amt nid master replica_nodes w)
              ''status'' = Some (PStr ''queued'')
          \<and> fst (adaptive_execute_payment env stamp user_id provider amt nid master replica_nodes w)
              ''partition_mode'' = Some (PBool True))
       \<and> (5000 \<le> amt \<longrightarrow>
            fst (adaptive_execute_payment env stamp user_id provider amt nid master replica_nodes w)
              ''success'' = Some (PBool False))"
  using assms by (simp add: adaptive_execute_payment_def)

theorem adaptive_payment_under_partition_witness:
  "\<not> can_reach_master (nodes partitioned_world ''ZIGUINCHOR'') ''DAKAR''
   \<and> (2000::int) < 5000
   \<and> fst (adaptive_execute_payment demo_payment_env ''1700000000'' ''user_001'' ''Orange'' 2000
            ''ZIGUINCHOR'' ''DAKAR'' [''SAINT_LOUIS'', ''ZIGUINCHOR''] partitioned_world)
        ''success'' = Some (PBool True)
   \<and> fst (adaptive_execute_payment demo_payment_env ''1700000000'' ''user_001'' ''Orange'' 2000
            ''ZIGUINCHOR'' ''DAKAR'' [''SAINT_LOUIS'', ''ZIGUINCHOR''] partitioned_world)
        ''status'' = Some (PStr ''queued'')
   \<and> (5000::int) \<le> 6000
   \<and> fst (adaptive_execute_payment demo_payment_env ''1700000000'' ''user_001'' ''Orange'' 6000
            ''ZIGUINCHOR'' ''DAKAR'' [''SAINT_LOUIS'', ''ZIGUINCHOR''] partitioned_world)
        ''success'' = Some (PBool False)"
  using adaptive_payment_under_partition [OF unreachable_from_ziguinchor, of 2000]
        adaptive_payment_under_partition [OF unreachable_from_ziguinchor, of 6000]
        unreachable_from_ziguinchor
  by simp

text \<open>
  C10 (frame property of the queued payment). When the adaptive payment is called with
  the master unreachable and an amount below 5000, the whole state after the call is the
  state before it: no balance, no transaction list, no cache entry and no counter of any
  node or service changes. In particular the user is not debited.
\<close>

theorem adaptive_queued_payment_frame:
  assumes "\<not> can_reach_master (nodes w nid) master" and "amt < 5000"
  shows "snd (adaptive_execute_payment env stamp user_id provider amt nid master replica_nodes w) = w"
  using assms by (simp add: adaptive_execute_payment_def)

theorem adaptive_queued_payment_frame_witness:
  "\<not> can_reach_master (nodes partitioned_world ''ZIGUINCHOR'') ''DAKAR''
   \<and> (2000::int) < 5000
   \<and> snd (adaptive_execute_payment demo_payment_env ''1700000000'' ''user_001'' ''Orange'' 2000
            ''ZIGUINCHOR'' ''DAKAR'' [''SAINT_LOUIS'', ''ZIGUINCHOR''] partitioned_world)
       = partitioned_world"
  using adaptive_queued_payment_frame [OF unreachable_from_ziguinchor, of 2000]
        unreachable_from_ziguinchor
  by simp

section \<open>Claims about the payment service\<close>

lemma on_node_get_balance_None:
  "on_node nid (get_balance u None) w =
     (accounts (nodes w nid) u, upd_node nid (\<lambda>n. n\<lparr>request_count := request_count n + 1\<rparr>) w)"
  by (simp add: on_node_def upd_node_def get_balance_def)

lemmas payment_defs = pay_bill_def payment_tx_def pay_bill_cp_strict_def pay_bill_adaptive_def
  call_provider_api_def fail_payment_def mark_failed_def new_transaction_def

text \<open>
  C6 (provider-failure rollback). For every bill payment in strict mode (the strategy
  \<open>CP\<close>, or any other strategy with an amount of at least 5000, which falls through to
  the strict mode) in which the call of the external provider fails: after the call the
  balance of the paying user on the master is the balance it had before the payment
  started (indeed the balance map of every node is unchanged), the transaction record is
  marked \<open>FAILED\<close>, and the result has \<open>success = False\<close>. When the balance is insufficient
  the provider is not called and the same facts hold.
\<close>

theorem provider_failure_rollback:
  assumes "\<not> provider_ok env"
      and "strategy = ''CP'' \<or> 5000 \<le> amt"
  shows "(case pay_bill env user_id provider amt master replica_nodes strategy w of
            (res, tx, w') \<Rightarrow>
              balances w' master user_id = balances w master user_id
              \<and> balances w' = balances w
              \<and> status tx = FAILED
              \<and> res ''success'' = Some (PBool False))"
proof (cases "accounts (nodes w master) user_id")
  case None
  then show ?thesis
    by (simp add: payment_defs on_node_get_balance_None upd_node_def balances_def fun_eq_iff)
next
  case (Some b)
  then have same: "(accounts (nodes w master))(user_id \<mapsto> b) = accounts (nodes w master)"
    by (simp add: fun_eq_iff)
  show ?thesis
  proof (cases "b < amt")
    case True
    with Some show ?thesis
      by (simp add: payment_defs on_node_get_balance_None upd_node_def balances_def fun_eq_iff)
  next
    case False
    with Some assms same show ?thesis
      by (auto simp: payment_defs on_node_get_balance_None upd_node_def balances_def
            set_balance_def Let_def fun_eq_iff)
  qed
qed

theorem provider_failure_rollback_witness:
  "\<not> provider_ok failing_provider_env
   \<and> (case pay_bill failing_provider_env ''user_001'' ''SENELEC'' 6000 ''DAKAR''
            [''SAINT_LOUIS'', ''ZIGUINCHOR''] ''CP'' seed_world of
         (res, tx, w') \<Rightarrow>
           balances w' ''DAKAR'' ''user_001'' = balances seed_world ''DAKAR'' ''user_001''
           \<and> balances w' = balances seed_world
           \<and> status tx = FAILED
           \<and> res ''success'' = Some (PBool False))"
proof -
  have h: "\<not> provider_ok failing_provider_env"
    by (simp add: failing_provider_env_def)
  from provider_failure_rollback [OF h disjI1 [OF refl]] h show ?thesis by simp
qed

section \<open>Effect of a transfer on the balance maps\<close>

lemma fst_pre_checks:
  "fst (pre_checks tx m w) \<longleftrightarrow>
     (\<exists>b. accounts (nodes w m) (from_user tx) = Some b \<and> amount tx \<le> b)
     \<and> accounts (nodes w m) (to_user tx) \<noteq> None"
  by (auto simp: pre_checks_def on_node_get_balance_None upd_node_def split: option.splits)

lemma accounts_set_balance:
  "accounts (set_balance u b n) = (accounts n)(u \<mapsto> b)"
  by (simp add: set_balance_def)

lemma accounts_add_transaction:
  "accounts (add_transaction nid tx n) = accounts n"
  by (simp add: add_transaction_def)

lemma nodes_upd_node_other:
  "m \<noteq> nid \<Longrightarrow> nodes (upd_node nid f w) m = nodes w m"
  by (simp add: upd_node_def)

lemma nodes_upd_node_same:
  "nodes (upd_node nid f w) nid = f (nodes w nid)"
  by (simp add: upd_node_def)

lemma nodes_send_message:
  "nodes (snd (send_message l a b t w)) = nodes w"
  by (simp add: send_message_def)

lemma commit_replicas_other:
  "m \<notin> set reps \<Longrightarrow>
   nodes (commit_replicas tx master start env i fb tb reps w) m = nodes w m"
proof (induction reps arbitrary: i w)
  case Nil
  then show ?case by simp
next
  case (Cons nid rest)
  then have ne: "m \<noteq> nid" and nin: "m \<notin> set rest" by auto
  obtain r w1 where sm: "send_message (lost (env i)) master nid ''commit'' w = (r, w1)"
    by (cases "send_message (lost (env i)) master nid ''commit'' w")
  then have n1: "nodes w1 = nodes w"
    using nodes_send_message [of "lost (env i)" master nid "''commit''" w] by simp
  show ?case
  proof (cases "clock (env i) - start > TIMEOUT_transfer")
    case True
    then show ?thesis by simp
  next
    case False
    show ?thesis
    proof (cases r)
      case None
      with False sm n1 Cons.IH [OF nin] show ?thesis by simp
    next
      case (Some d)
      with False sm n1 ne Cons.IH [OF nin] show ?thesis
        by (simp add: on_node_get_balance_None Let_def nodes_upd_node_other)
    qed
  qed
qed

lemma commit_phase_master:
  assumes fb: "accounts (nodes w m) (from_user tx) = Some fb"
      and tb: "accounts (nodes w m) (to_user tx) = Some tb"
      and nin: "m \<notin> set reps"
  shows "fst (commit_phase s env tx m reps w) = Inr True"
    and "accounts (nodes (snd (commit_phase s env tx m reps w)) m) =
           (accounts (nodes w m))(from_user tx \<mapsto> fb - amount tx, to_user tx \<mapsto> tb + amount tx)"
  using fb tb
  by (simp_all add: commit_phase_def on_node_get_balance_None nodes_upd_node_same Let_def
        commit_replicas_other [OF nin] accounts_set_balance accounts_add_transaction)

lemma pre_checks_accounts:
  "accounts (nodes (snd (pre_checks tx m w)) k) = accounts (nodes w k)"
  using balances_pre_checks [of tx m w] by (simp add: balances_def fun_eq_iff)

lemma prepare_phase_accounts:
  "accounts (nodes (snd (snd (prepare_phase s env tx m reps w))) k) = accounts (nodes w k)"
proof -
  obtain r tx' w' where pp: "prepare_phase s env tx m reps w = (r, tx', w')"
    by (cases "prepare_phase s env tx m reps w")
  from prepare_phase_bal [OF pp] pp show ?thesis by (simp add: balances_def fun_eq_iff)
qed

lemma prepare_phase_tx:
  "from_user (fst (snd (prepare_phase s env tx m reps w))) = from_user tx
   \<and> to_user (fst (snd (prepare_phase s env tx m reps w))) = to_user tx
   \<and> amount (fst (snd (prepare_phase s env tx m reps w))) = amount tx
   \<and> transaction_id (fst (snd (prepare_phase s env tx m reps w))) = transaction_id tx"
  unfolding prepare_phase_def
  by (simp del: prepare_votes.simps add: mark_prepared_def split: prod.splits sum.splits)

lemma transfer_tx_fields:
  "from_user (transfer_tx env fu tu amt) = fu"
  "to_user (transfer_tx env fu tu amt) = tu"
  "amount (transfer_tx env fu tu amt) = amt"
  "transaction_id (transfer_tx env fu tu amt) = ''TX_'' @ uuid env"
  by (simp_all add: transfer_tx_def new_transaction_def)

lemma transfer_success:
  assumes pre: "fst (pre_checks (transfer_tx env fu tu amt) m w)"
      and prep: "fst (prepare_phase (prepare_start env) (prepare_steps env)
                       (transfer_tx env fu tu amt) m reps
                       (snd (pre_checks (transfer_tx env fu tu amt) m w))) = Inr True"
      and nin: "m \<notin> set reps"
  shows "\<exists>fb tb.
           accounts (nodes w m) fu = Some fb \<and> accounts (nodes w m) tu = Some tb
         \<and> fst (transfer env fu tu amt m reps w) ''success'' = Some (PBool True)
         \<and> fst (transfer env fu tu amt m reps w) ''transaction_id'' = Some (PStr (''TX_'' @ uuid env))
         \<and> accounts (nodes (snd (transfer env fu tu amt m reps w)) m) =
             (accounts (nodes w m))(fu \<mapsto> fb - amt, tu \<mapsto> tb + amt)
         \<and> fst (transfer env fu tu amt m reps w) ''new_balance_from'' =
             Some (opt_num (accounts (nodes (snd (transfer env fu tu amt m reps w)) m) fu))
         \<and> fst (transfer env fu tu amt m reps w) ''new_balance_to'' =
             Some (opt_num (accounts (nodes (snd (transfer env fu tu amt m reps w)) m) tu))"
proof -
  define tx where "tx = transfer_tx env fu tu amt"
  obtain ok w1 where pc: "pre_checks tx m w = (ok, w1)" by (cases "pre_checks tx m w")
  obtain pr tx1 w2 where pp:
    "prepare_phase (prepare_start env) (prepare_steps env) tx m reps w1 = (pr, tx1, w2)"
    by (cases "prepare_phase (prepare_start env) (prepare_steps env) tx m reps w1")
  obtain cr w3 where cp:
    "commit_phase (commit_start env) (commit_steps env) tx1 m reps w2 = (cr, w3)"
    by (cases "commit_phase (commit_start env) (commit_steps env) tx1 m reps w2")
  from pre pc have ok: ok by (simp add: tx_def)
  from prep pc pp have pr: "pr = Inr True" by (simp add: tx_def)
  from fst_pre_checks [of tx m w] pre obtain fb tb where
    fb: "accounts (nodes w m) fu = Some fb" and tb: "accounts (nodes w m) tu = Some tb"
    by (auto simp: tx_def transfer_tx_fields)
  have txf: "from_user tx1 = fu" "to_user tx1 = tu" "amount tx1 = amt"
            "transaction_id tx1 = ''TX_'' @ uuid env"
    using prepare_phase_tx [of "prepare_start env" "prepare_steps env" tx m reps w1] pp
    by (simp_all add: tx_def transfer_tx_fields)
  have a1: "accounts (nodes w1 m) = accounts (nodes w m)"
    using pre_checks_accounts [of tx m w m] pc by simp
  have a2: "accounts (nodes w2 m) = accounts (nodes w1 m)"
    using prepare_phase_accounts [of "prepare_start env" "prepare_steps env" tx m reps w1 m] pp
    by simp
  have fb2: "accounts (nodes w2 m) (from_user tx1) = Some fb"
   and tb2: "accounts (nodes w2 m) (to_user tx1) = Some tb"
    using fb tb a1 a2 txf by simp_all
  from commit_phase_master [OF fb2 tb2 nin, of "commit_start env" "commit_steps env"] cp txf
  have cr: "cr = Inr True"
   and a3: "accounts (nodes w3 m) = (accounts (nodes w2 m))(fu \<mapsto> fb - amt, tu \<mapsto> tb + amt)"
    by simp_all
  have tr: "transfer env fu tu amt m reps w =
        ([''success'' \<mapsto> PBool True,
          ''transaction_id'' \<mapsto> PStr (''TX_'' @ uuid env),
          ''new_balance_from'' \<mapsto> opt_num (accounts (nodes w3 m) fu),
          ''new_balance_to'' \<mapsto> opt_num (accounts (nodes w3 m) tu)],
         upd_node m (\<lambda>n. n\<lparr>request_count := request_count n + 1\<rparr>)
           (upd_node m (\<lambda>n. n\<lparr>request_count := request_count n + 1\<rparr>)
              (w3\<lparr>committed_transactions :=
                    (committed_transactions w3)(''TX_'' @ uuid env \<mapsto> mark_committed tx1)\<rparr>)))"
    using pc ok pp pr cp cr txf
    by (simp add: transfer_def tx_def [symmetric] on_node_get_balance_None Let_def
          mark_committed_def upd_node_def)
  have acc: "accounts (nodes (snd (transfer env fu tu amt m reps w)) m) = accounts (nodes w3 m)"
    by (simp add: tr upd_node_def)
  show ?thesis
    using fb tb a1 a2 a3 acc by (simp add: tr)
qed

lemma transfer_success_only_if:
  assumes "fst (transfer env fu tu amt m reps w) ''success'' = Some (PBool True)"
  shows "fst (pre_checks (transfer_tx env fu tu amt) m w)
       \<and> fst (prepare_phase (prepare_start env) (prepare_steps env)
                 (transfer_tx env fu tu amt) m reps
                 (snd (pre_checks (transfer_tx env fu tu amt) m w))) = Inr True"
proof -
  define tx where "tx = transfer_tx env fu tu amt"
  obtain ok w1 where pc: "pre_checks tx m w = (ok, w1)" by (cases "pre_checks tx m w")
  obtain pr tx1 w2 where pp:
    "prepare_phase (prepare_start env) (prepare_steps env) tx m reps w1 = (pr, tx1, w2)"
    by (cases "prepare_phase (prepare_start env) (prepare_steps env) tx m reps w1")
  have ok: ok
  proof (rule ccontr)
    assume "\<not> ok"
    with pc assms abort_transaction_success [of tx "''Pre-checks failed''" w1]
    show False by (simp add: transfer_def tx_def [symmetric])
  qed
  have "pr = Inr True"
  proof (cases pr)
    case (Inl x)
    with pc ok pp assms abort_transaction_success [of tx1 "except_reason x" w2]
    show ?thesis by (simp add: transfer_def tx_def [symmetric])
  next
    case (Inr b)
    show ?thesis
    proof (cases b)
      case True
      with Inr show ?thesis by simp
    next
      case False
      with Inr pc ok pp assms abort_transaction_success [of tx1 "''Prepare phase failed''" w2]
      show ?thesis by (simp add: transfer_def tx_def [symmetric])
    qed
  qed
  with ok pc pp show ?thesis by (simp add: tx_def)
qed

text \<open>
  Every transfer that does not succeed, whether by failed pre-checks, a rejected or timed
  out Prepare phase or an exception, leaves the balance map of every node as it was.
\<close>

lemma commit_phase_returns_True:
  assumes "accounts (nodes w m) (from_user tx) = Some fb"
      and "accounts (nodes w m) (to_user tx) = Some tb"
  shows "fst (commit_phase s env tx m reps w) = Inr True"
  using assms
  by (simp add: commit_phase_def on_node_get_balance_None nodes_upd_node_same Let_def)

lemma transfer_failure_balances:
  assumes fail: "fst (transfer env fu tu amt m reps w) ''success'' \<noteq> Some (PBool True)"
  shows "balances (snd (transfer env fu tu amt m reps w)) = balances w"
proof -
  define tx where "tx = transfer_tx env fu tu amt"
  obtain ok w1 where pc: "pre_checks tx m w = (ok, w1)" by (cases "pre_checks tx m w")
  have b1: "balances w1 = balances w"
    using balances_pre_checks [of tx m w] pc by simp
  show ?thesis
  proof (cases ok)
    case False
    with pc b1 show ?thesis
      by (simp add: transfer_def tx_def [symmetric] abort_transaction_def balances_def)
  next
    case True
    obtain pr tx1 w2 where pp:
      "prepare_phase (prepare_start env) (prepare_steps env) tx m reps w1 = (pr, tx1, w2)"
      by (cases "prepare_phase (prepare_start env) (prepare_steps env) tx m reps w1")
    from pp have b2: "balances w2 = balances w1" by (rule prepare_phase_bal)
    have aborted: "\<And>reason. balances (snd (abort_transaction tx1 reason w2)) = balances w"
      using b1 b2 by (simp add: abort_transaction_def balances_def)
    show ?thesis
    proof (cases "pr = Inr True")
      case False
      then have "(\<exists>x. pr = Inl x) \<or> pr = Inr False" by (cases pr) auto
      with pc True pp aborted show ?thesis
        by (auto simp: transfer_def tx_def [symmetric])
    next
      case prT: True
      from True pc fst_pre_checks [of tx m w] obtain fb tb where
        "accounts (nodes w m) fu = Some fb" "accounts (nodes w m) tu = Some tb"
        by (auto simp: tx_def transfer_tx_fields)
      moreover have "accounts (nodes w2 m) = accounts (nodes w m)"
        using b1 b2 by (simp add: balances_def fun_eq_iff)
      moreover have "from_user tx1 = fu" "to_user tx1 = tu"
        using prepare_phase_tx [of "prepare_start env" "prepare_steps env" tx m reps w1] pp
        by (simp_all add: tx_def transfer_tx_fields)
      ultimately have
        "fst (commit_phase (commit_start env) (commit_steps env) tx1 m reps w2) = Inr True"
        using commit_phase_returns_True [of w2 m tx1 fb tb] by simp
      then obtain w3 where
        "commit_phase (commit_start env) (commit_steps env) tx1 m reps w2 = (Inr True, w3)"
        by (cases "commit_phase (commit_start env) (commit_steps env) tx1 m reps w2") auto
      with pc True pp prT have
        "fst (transfer env fu tu amt m reps w) ''success'' = Some (PBool True)"
        by (simp add: transfer_def tx_def [symmetric] Let_def split: prod.splits)
      with fail show ?thesis by simp
    qed
  qed
qed

lemma transfer_success_or_failure:
  "fst (transfer env fu tu amt m reps w) ''success'' = Some (PBool True)
   \<or> fst (transfer env fu tu amt m reps w) ''success'' = Some (PBool False)"
  by (simp add: transfer_def abort_transaction_def Let_def
           split: prod.splits sum.splits bool.splits)

section \<open>Claims about the transfer service\<close>

text \<open>
  C1 (2PC atomicity), as the code has it. For every call of \<open>transfer\<close>: if the
  pre-checks fail, or if the participants (the master and the replicas) are pairwise
  distinct nodes and some participant votes NO during the Prepare phase, then the result
  has \<open>success = False\<close> and the balance map of every node after the call is the balance
  map it had before the call. A vote counts as soon as it is cast, whether the loop then
  runs to its end, misses its deadline or raises. The statement holds for every
  environment (clock readings and packet losses), every master and every state.
\<close>

theorem transfer_abort_atomic:
  assumes "\<not> fst (pre_checks (transfer_tx env fu tu amt) master w)
         \<or> (distinct (master # replica_nodes)
            \<and> cast_NO env (transfer_tx env fu tu amt) master replica_nodes
                 (snd (pre_checks (transfer_tx env fu tu amt) master w)))"
  shows "fst (transfer env fu tu amt master replica_nodes w) ''success'' = Some (PBool False)
       \<and> balances (snd (transfer env fu tu amt master replica_nodes w)) = balances w"
proof -
  have "\<not> (fst (pre_checks (transfer_tx env fu tu amt) master w)
           \<and> fst (prepare_phase (prepare_start env) (prepare_steps env)
                     (transfer_tx env fu tu amt) master replica_nodes
                     (snd (pre_checks (transfer_tx env fu tu amt) master w))) = Inr True)"
    using assms cast_NO_not_prepared by blast
  with transfer_success_only_if [of env fu tu amt master replica_nodes w]
  have ns: "fst (transfer env fu tu amt master replica_nodes w) ''success'' \<noteq> Some (PBool True)"
    by blast
  with transfer_success_or_failure [of env fu tu amt master replica_nodes w]
  have "fst (transfer env fu tu amt master replica_nodes w) ''success'' = Some (PBool False)"
    by blast
  with transfer_failure_balances [OF ns] show ?thesis by simp
qed

theorem transfer_abort_atomic_witness:
  "distinct [''DAKAR'', ''SAINT_LOUIS'', ''ZIGUINCHOR'']
   \<and> cast_NO lossy_env (transfer_tx lossy_env ''user_001'' ''user_002'' 3000) ''DAKAR''
       [''SAINT_LOUIS'', ''ZIGUINCHOR'']
       (snd (pre_checks (transfer_tx lossy_env ''user_001'' ''user_002'' 3000) ''DAKAR'' seed_world))
   \<and> fst (transfer lossy_env ''user_001'' ''user_002'' 3000 ''DAKAR''
            [''SAINT_LOUIS'', ''ZIGUINCHOR''] seed_world) ''success'' = Some (PBool False)
   \<and> balances (snd (transfer lossy_env ''user_001'' ''user_002'' 3000 ''DAKAR''
                      [''SAINT_LOUIS'', ''ZIGUINCHOR''] seed_world)) = balances seed_world
   \<and> cast_NO late_lossy_env (transfer_tx late_lossy_env ''user_001'' ''user_002'' 3000) ''DAKAR''
       [''SAINT_LOUIS'', ''ZIGUINCHOR'']
       (snd (pre_checks (transfer_tx late_lossy_env ''user_001'' ''user_002'' 3000) ''DAKAR''
               seed_world))
   \<and> fst (transfer late_lossy_env ''user_001'' ''user_002'' 3000 ''DAKAR''
            [''SAINT_LOUIS'', ''ZIGUINCHOR''] seed_world) ''success'' = Some (PBool False)
   \<and> balances (snd (transfer late_lossy_env ''user_001'' ''user_002'' 3000 ''DAKAR''
                      [''SAINT_LOUIS'', ''ZIGUINCHOR''] seed_world)) = balances seed_world"
proof -
  have d: "distinct (''DAKAR'' # [''SAINT_LOUIS'', ''ZIGUINCHOR''])" by simp
  have h1: "cast_NO lossy_env (transfer_tx lossy_env ''user_001'' ''user_002'' 3000) ''DAKAR''
     [''SAINT_LOUIS'', ''ZIGUINCHOR'']
     (snd (pre_checks (transfer_tx lossy_env ''user_001'' ''user_002'' 3000) ''DAKAR'' seed_world))"
    by (simp add: cast_NO_def seed_world_def node_defs transfer_defs)
  have h2: "cast_NO late_lossy_env (transfer_tx late_lossy_env ''user_001'' ''user_002'' 3000)
     ''DAKAR'' [''SAINT_LOUIS'', ''ZIGUINCHOR'']
     (snd (pre_checks (transfer_tx late_lossy_env ''user_001'' ''user_002'' 3000) ''DAKAR''
             seed_world))"
    by (simp add: cast_NO_def seed_world_def node_defs transfer_defs)
  from transfer_abort_atomic [OF disjI2 [OF conjI [OF d h1]]]
       transfer_abort_atomic [OF disjI2 [OF conjI [OF d h2]]] h1 h2
  show ?thesis by simp
qed

lemma second_lost_pre_checks:
  "fst (pre_checks (transfer_tx second_lost_env ''user_001'' ''user_002'' 3000) ''DAKAR''
          seed_world)"
  by (simp add: fst_pre_checks transfer_tx_fields seed_world_def seed_node_def new_node_def)

lemma second_lost_prepare_phase:
  "fst (prepare_phase (prepare_start second_lost_env) (prepare_steps second_lost_env)
          (transfer_tx second_lost_env ''user_001'' ''user_002'' 3000) ''DAKAR''
          [''SAINT_LOUIS'', ''SAINT_LOUIS'']
          (snd (pre_checks (transfer_tx second_lost_env ''user_001'' ''user_002'' 3000) ''DAKAR''
                  seed_world))) = Inr True"
  by (simp add: seed_world_def node_defs transfer_defs)

text \<open>
  The claim C1 as stated has no condition on the participants. The votes are kept in a
  dictionary keyed by the node id, so when a node is listed twice its second vote replaces
  the first. With Saint-Louis listed twice among the replicas and only the first Prepare
  message to it lost, Saint-Louis votes NO and then YES; the pre-checks pass, the transfer
  succeeds, and the balance of \<open>user_001\<close> on the master goes from 10000 to 7000.
\<close>

theorem repeated_participant_NO_vote_replaced:
  "fst (pre_checks (transfer_tx second_lost_env ''user_001'' ''user_002'' 3000) ''DAKAR''
          seed_world)
   \<and> cast_NO second_lost_env (transfer_tx second_lost_env ''user_001'' ''user_002'' 3000)
       ''DAKAR'' [''SAINT_LOUIS'', ''SAINT_LOUIS'']
       (snd (pre_checks (transfer_tx second_lost_env ''user_001'' ''user_002'' 3000) ''DAKAR''
               seed_world))
   \<and> fst (transfer second_lost_env ''user_001'' ''user_002'' 3000 ''DAKAR''
            [''SAINT_LOUIS'', ''SAINT_LOUIS''] seed_world) ''success'' = Some (PBool True)
   \<and> balances seed_world ''DAKAR'' ''user_001'' = Some 10000
   \<and> balances (snd (transfer second_lost_env ''user_001'' ''user_002'' 3000 ''DAKAR''
                      [''SAINT_LOUIS'', ''SAINT_LOUIS''] seed_world)) ''DAKAR'' ''user_001''
       = Some 7000"
proof -
  have c: "cast_NO second_lost_env (transfer_tx second_lost_env ''user_001'' ''user_002'' 3000)
       ''DAKAR'' [''SAINT_LOUIS'', ''SAINT_LOUIS'']
       (snd (pre_checks (transfer_tx second_lost_env ''user_001'' ''user_002'' 3000) ''DAKAR''
               seed_world))"
    by (simp add: cast_NO_def seed_world_def node_defs transfer_defs)
  have b: "accounts (nodes seed_world ''DAKAR'') ''user_001'' = Some 10000"
          "accounts (nodes seed_world ''DAKAR'') ''user_002'' = Some 5000"
    by (simp_all add: seed_world_def seed_node_def new_node_def)
  have nin: "''DAKAR'' \<notin> set [''SAINT_LOUIS'', ''SAINT_LOUIS'']" by simp
  from transfer_success [OF second_lost_pre_checks second_lost_prepare_phase nin] b c
       second_lost_pre_checks
  show ?thesis by (auto simp: balances_def)
qed

lemma transfer_success_postcondition:
  assumes succ: "fst (transfer env fu tu amt m reps w) ''success'' = Some (PBool True)"
      and ne: "fu \<noteq> tu"
      and nin: "m \<notin> set reps"
  shows "\<exists>fb tb.
           balances w m fu = Some fb \<and> balances w m tu = Some tb
         \<and> balances (snd (transfer env fu tu amt m reps w)) m =
             (balances w m)(fu \<mapsto> fb - amt, tu \<mapsto> tb + amt)
         \<and> fst (transfer env fu tu amt m reps w) ''transaction_id'' = Some (PStr (''TX_'' @ uuid env))
         \<and> fst (transfer env fu tu amt m reps w) ''new_balance_from'' = Some (PNum (fb - amt))
         \<and> fst (transfer env fu tu amt m reps w) ''new_balance_to'' = Some (PNum (tb + amt))"
proof -
  from transfer_success_only_if [OF succ] transfer_success [of env fu tu amt m w reps] nin
  obtain fb tb where
    "accounts (nodes w m) fu = Some fb" "accounts (nodes w m) tu = Some tb"
    "accounts (nodes (snd (transfer env fu tu amt m reps w)) m) =
       (accounts (nodes w m))(fu \<mapsto> fb - amt, tu \<mapsto> tb + amt)"
    "fst (transfer env fu tu amt m reps w) ''transaction_id'' = Some (PStr (''TX_'' @ uuid env))"
    "fst (transfer env fu tu amt m reps w) ''new_balance_from'' =
       Some (opt_num (accounts (nodes (snd (transfer env fu tu amt m reps w)) m) fu))"
    "fst (transfer env fu tu amt m reps w) ''new_balance_to'' =
       Some (opt_num (accounts (nodes (snd (transfer env fu tu amt m reps w)) m) tu))"
    by blast
  with ne show ?thesis by (simp add: balances_def opt_num_def)
qed

text \<open>
  The end-to-end scenario of the specification: with the balances 10000 and 5000, a
  transfer of 3000 with every node reachable succeeds and leaves 7000 and 8000 on the
  master.
\<close>

lemma seed_pre_checks_12:
  "fst (pre_checks (transfer_tx calm_env ''user_001'' ''user_002'' 3000) ''DAKAR'' seed_world)"
  by (simp add: fst_pre_checks transfer_tx_fields seed_world_def seed_node_def new_node_def)

lemma seed_prepare_phase_12:
  "fst (prepare_phase (prepare_start calm_env) (prepare_steps calm_env)
          (transfer_tx calm_env ''user_001'' ''user_002'' 3000) ''DAKAR''
          [''SAINT_LOUIS'', ''ZIGUINCHOR'']
          (snd (pre_checks (transfer_tx calm_env ''user_001'' ''user_002'' 3000) ''DAKAR''
                  seed_world))) = Inr True"
  by (simp add: seed_world_def node_defs transfer_defs)

lemma end_to_end_transfer:
  "fst (transfer calm_env ''user_001'' ''user_002'' 3000 ''DAKAR''
          [''SAINT_LOUIS'', ''ZIGUINCHOR''] seed_world) ''success'' = Some (PBool True)
   \<and> balances (snd (transfer calm_env ''user_001'' ''user_002'' 3000 ''DAKAR''
                      [''SAINT_LOUIS'', ''ZIGUINCHOR''] seed_world)) ''DAKAR'' ''user_001''
       = Some 7000
   \<and> balances (snd (transfer calm_env ''user_001'' ''user_002'' 3000 ''DAKAR''
                      [''SAINT_LOUIS'', ''ZIGUINCHOR''] seed_world)) ''DAKAR'' ''user_002''
       = Some 8000"
proof -
  have b: "accounts (nodes seed_world ''DAKAR'') ''user_001'' = Some 10000"
          "accounts (nodes seed_world ''DAKAR'') ''user_002'' = Some 5000"
    by (simp_all add: seed_world_def seed_node_def new_node_def)
  have nin: "''DAKAR'' \<notin> set [''SAINT_LOUIS'', ''ZIGUINCHOR'']" by simp
  from transfer_success [OF seed_pre_checks_12 seed_prepare_phase_12 nin] b
  show ?thesis by (auto simp: balances_def)
qed

lemma seed_pre_checks:
  "fst (pre_checks (transfer_tx calm_env ''user_001'' ''user_001'' 3000) ''DAKAR'' seed_world)"
  by (simp add: fst_pre_checks transfer_tx_fields seed_world_def seed_node_def new_node_def)

lemma seed_prepare_phase:
  "fst (prepare_phase (prepare_start calm_env) (prepare_steps calm_env)
          (transfer_tx calm_env ''user_001'' ''user_001'' 3000) ''DAKAR''
          [''SAINT_LOUIS'', ''ZIGUINCHOR'']
          (snd (pre_checks (transfer_tx calm_env ''user_001'' ''user_001'' 3000) ''DAKAR''
                  seed_world))) = Inr True"
  by (simp add: seed_world_def node_defs transfer_defs)

text \<open>
  C2 (postcondition of a successful transfer). The claim says that after every successful
  transfer the master holds the source balance decreased by the amount and the destination
  balance increased by it. The lemma \<open>transfer_success_postcondition\<close> above proves this,
  together with the returned transaction id and balances, for two distinct users. The
  code reads both balances before it writes either, so a transfer from a user to
  themselves is not covered: in the driver's state a successful transfer of 3000 from
  \<open>user_001\<close> to \<open>user_001\<close> leaves the master with 13000 instead of 10000, and the
  result reports 13000 as the new balance of the source.
\<close>

theorem self_transfer_credits_source:
  "balances seed_world ''DAKAR'' ''user_001'' = Some 10000
   \<and> fst (transfer calm_env ''user_001'' ''user_001'' 3000 ''DAKAR''
            [''SAINT_LOUIS'', ''ZIGUINCHOR''] seed_world) ''success'' = Some (PBool True)
   \<and> balances (snd (transfer calm_env ''user_001'' ''user_001'' 3000 ''DAKAR''
                      [''SAINT_LOUIS'', ''ZIGUINCHOR''] seed_world)) ''DAKAR'' ''user_001''
       = Some 13000
   \<and> fst (transfer calm_env ''user_001'' ''user_001'' 3000 ''DAKAR''
            [''SAINT_LOUIS'', ''ZIGUINCHOR''] seed_world) ''new_balance_from'' = Some (PNum 13000)"
proof -
  have b: "accounts (nodes seed_world ''DAKAR'') ''user_001'' = Some 10000"
    by (simp add: seed_world_def seed_node_def new_node_def)
  have nin: "''DAKAR'' \<notin> set [''SAINT_LOUIS'', ''ZIGUINCHOR'']" by simp
  from transfer_success [OF seed_pre_checks seed_prepare_phase nin] b
  show ?thesis by (auto simp: balances_def opt_num_def)
qed

lemma commit_phase_snd:
  assumes fb: "accounts (nodes w m) (from_user tx) = Some fb"
      and tb: "accounts (nodes w m) (to_user tx) = Some tb"
  shows "snd (commit_phase s env tx m reps w) =
           commit_replicas tx m s env 0 fb tb reps
             (upd_node m (add_transaction m tx)
               (upd_node m (set_balance (to_user tx) (tb + amount tx))
                 (upd_node m (set_balance (from_user tx) (fb - amount tx))
                   (upd_node m (\<lambda>n. n\<lparr>request_count := request_count n + 1\<rparr>)
                     (upd_node m (\<lambda>n. n\<lparr>request_count := request_count n + 1\<rparr>) w)))))"
  using fb tb
  by (simp del: commit_replicas.simps
        add: commit_phase_def on_node_get_balance_None Let_def nodes_upd_node_same)

lemma transfer_success_commit:
  assumes pre: "fst (pre_checks (transfer_tx env fu tu amt) m w)"
      and prep: "fst (prepare_phase (prepare_start env) (prepare_steps env)
                       (transfer_tx env fu tu amt) m reps
                       (snd (pre_checks (transfer_tx env fu tu amt) m w))) = Inr True"
  shows "\<exists>tx1 w2.
           from_user tx1 = fu \<and> to_user tx1 = tu \<and> amount tx1 = amt
         \<and> balances w2 = balances w
         \<and> fst (transfer env fu tu amt m reps w) ''success'' = Some (PBool True)
         \<and> balances (snd (transfer env fu tu amt m reps w)) =
             balances (snd (commit_phase (commit_start env) (commit_steps env) tx1 m reps w2))"
proof -
  define tx where "tx = transfer_tx env fu tu amt"
  obtain ok w1 where pc: "pre_checks tx m w = (ok, w1)" by (cases "pre_checks tx m w")
  obtain pr tx1 w2 where pp:
    "prepare_phase (prepare_start env) (prepare_steps env) tx m reps w1 = (pr, tx1, w2)"
    by (cases "prepare_phase (prepare_start env) (prepare_steps env) tx m reps w1")
  obtain cr w3 where cp:
    "commit_phase (commit_start env) (commit_steps env) tx1 m reps w2 = (cr, w3)"
    by (cases "commit_phase (commit_start env) (commit_steps env) tx1 m reps w2")
  from pre pc have ok: ok by (simp add: tx_def)
  from prep pc pp have pr: "pr = Inr True" by (simp add: tx_def)
  have txf: "from_user tx1 = fu" "to_user tx1 = tu" "amount tx1 = amt"
    using prepare_phase_tx [of "prepare_start env" "prepare_steps env" tx m reps w1] pp
    by (simp_all add: tx_def transfer_tx_fields)
  have b1: "balances w1 = balances w"
    using balances_pre_checks [of tx m w] pc by simp
  from pp have b2: "balances w2 = balances w1" by (rule prepare_phase_bal)
  from fst_pre_checks [of tx m w] pre obtain fb tb where
    "accounts (nodes w m) fu = Some fb" "accounts (nodes w m) tu = Some tb"
    by (auto simp: tx_def transfer_tx_fields)
  with b1 b2 txf have
    "accounts (nodes w2 m) (from_user tx1) = Some fb" "accounts (nodes w2 m) (to_user tx1) = Some tb"
    by (simp_all add: balances_def fun_eq_iff)
  from commit_phase_returns_True [OF this, of "commit_start env" "commit_steps env" reps] cp
  have cr: "cr = Inr True" by simp
  from pc ok pp pr cp cr have
    "fst (transfer env fu tu amt m reps w) ''success'' = Some (PBool True)"
    "balances (snd (transfer env fu tu amt m reps w)) = balances w3"
    by (simp_all add: transfer_def tx_def [symmetric] on_node_get_balance_None Let_def
          upd_node_def balances_def fun_eq_iff)
  with txf b1 b2 cp show ?thesis by (intro exI [of _ tx1] exI [of _ w2]) simp
qed

lemma commit_second_replica_lost:
  assumes "nid1 \<noteq> nid2"
  shows "accounts (nodes (commit_replicas tx m 0 (commit_steps commit_lossy_env) 0 fb tb
                            [nid1, nid2] w) nid2) = accounts (nodes w nid2)"
    and "accounts (nodes (commit_replicas tx m 0 (commit_steps commit_lossy_env) 0 fb tb
                            [nid1, nid2] w) nid1) =
           (accounts (nodes w nid1))
             (from_user tx \<mapsto> py_or (accounts (nodes w nid1) (from_user tx)) fb - amount tx,
              to_user tx \<mapsto> py_or (accounts (nodes w nid1) (to_user tx)) tb + amount tx)"
  using assms
  by (simp_all add: commit_lossy_env_def TIMEOUT_transfer_def send_message_def
        on_node_get_balance_None Let_def upd_node_def accounts_set_balance
        accounts_add_transaction)

lemma commit_replicas_delivered:
  assumes intime: "\<not> clock (env i) - start > TIMEOUT_transfer"
      and deliv: "\<not> lost (env i)"
      and nin: "nid \<notin> set rest"
  shows "accounts (nodes (commit_replicas tx master start env i fb tb (nid # rest) w) nid) =
           (accounts (nodes w nid))
             (from_user tx \<mapsto> py_or (accounts (nodes w nid) (from_user tx)) fb - amount tx,
              to_user tx \<mapsto> py_or (accounts (nodes w nid) (to_user tx)) tb + amount tx)"
  using intime deliv
  by (simp add: send_message_def on_node_get_balance_None Let_def commit_replicas_other [OF nin]
        nodes_upd_node_same accounts_set_balance accounts_add_transaction upd_node_def)

lemma commit_phase_replica:
  assumes fb: "accounts (nodes w m) (from_user tx) = Some fb"
      and tb: "accounts (nodes w m) (to_user tx) = Some tb"
      and ne: "nid \<noteq> m"
      and intime: "\<not> clock (env 0) - s > TIMEOUT_transfer"
      and deliv: "\<not> lost (env 0)"
      and nin: "nid \<notin> set rest"
  shows "accounts (nodes (snd (commit_phase s env tx m (nid # rest) w)) nid) =
           (accounts (nodes w nid))
             (from_user tx \<mapsto> py_or (accounts (nodes w nid) (from_user tx)) fb - amount tx,
              to_user tx \<mapsto> py_or (accounts (nodes w nid) (to_user tx)) tb + amount tx)"
proof -
  define w5 where "w5 =
    upd_node m (add_transaction m tx)
      (upd_node m (set_balance (to_user tx) (tb + amount tx))
        (upd_node m (set_balance (from_user tx) (fb - amount tx))
          (upd_node m (\<lambda>n. n\<lparr>request_count := request_count n + 1\<rparr>)
            (upd_node m (\<lambda>n. n\<lparr>request_count := request_count n + 1\<rparr>) w))))"
  have same: "nodes w5 nid = nodes w nid"
    using ne by (simp add: w5_def nodes_upd_node_other)
  have "snd (commit_phase s env tx m (nid # rest) w) =
          commit_replicas tx m s env 0 fb tb (nid # rest) w5"
    using fb tb
    by (simp del: commit_replicas.simps
          add: commit_phase_def on_node_get_balance_None Let_def w5_def nodes_upd_node_same
               nodes_upd_node_other)
  with commit_replicas_delivered
         [where env = env and i = 0 and start = s and tx = tx and master = m and fb = fb
            and tb = tb and w = w5, OF intime deliv nin] same
  show ?thesis by simp
qed

text \<open>
  The lagging state is reached through the service: a successful transfer whose Commit
  message to Ziguinchor is lost leaves the three nodes with its balance maps.
\<close>

lemma early_pre_checks:
  "fst (pre_checks (transfer_tx commit_lossy_env ''user_001'' ''user_002'' 5000) ''DAKAR''
          early_world)"
  by (simp add: fst_pre_checks transfer_tx_fields early_world_def upd_node_def)

lemma early_prepare_phase:
  "fst (prepare_phase (prepare_start commit_lossy_env) (prepare_steps commit_lossy_env)
          (transfer_tx commit_lossy_env ''user_001'' ''user_002'' 5000) ''DAKAR''
          [''SAINT_LOUIS'', ''ZIGUINCHOR'']
          (snd (pre_checks (transfer_tx commit_lossy_env ''user_001'' ''user_002'' 5000) ''DAKAR''
                  early_world))) = Inr True"
  by (simp add: early_world_def seed_world_def node_defs transfer_defs)

lemma lagging_state_reached:
  "fst (transfer commit_lossy_env ''user_001'' ''user_002'' 5000 ''DAKAR''
          [''SAINT_LOUIS'', ''ZIGUINCHOR''] early_world) ''success'' = Some (PBool True)
   \<and> balances (snd (transfer commit_lossy_env ''user_001'' ''user_002'' 5000 ''DAKAR''
                      [''SAINT_LOUIS'', ''ZIGUINCHOR''] early_world)) ''DAKAR''
       = balances lagging_world ''DAKAR''
   \<and> balances (snd (transfer commit_lossy_env ''user_001'' ''user_002'' 5000 ''DAKAR''
                      [''SAINT_LOUIS'', ''ZIGUINCHOR''] early_world)) ''SAINT_LOUIS''
       = balances lagging_world ''SAINT_LOUIS''
   \<and> balances (snd (transfer commit_lossy_env ''user_001'' ''user_002'' 5000 ''DAKAR''
                      [''SAINT_LOUIS'', ''ZIGUINCHOR''] early_world)) ''ZIGUINCHOR''
       = balances lagging_world ''ZIGUINCHOR''"
proof -
  let ?A = "[''user_001'' \<mapsto> 15000, ''user_002'' \<mapsto> (0::int)]"
  let ?B = "[''user_001'' \<mapsto> 10000, ''user_002'' \<mapsto> (5000::int)]"
  from transfer_success_commit [OF early_pre_checks early_prepare_phase]
  obtain tx1 w2 where
    tx: "from_user tx1 = ''user_001''" "to_user tx1 = ''user_002''" "amount tx1 = 5000"
    and b2: "balances w2 = balances early_world"
    and succ: "fst (transfer commit_lossy_env ''user_001'' ''user_002'' 5000 ''DAKAR''
                     [''SAINT_LOUIS'', ''ZIGUINCHOR''] early_world) ''success'' = Some (PBool True)"
    and bal: "balances (snd (transfer commit_lossy_env ''user_001'' ''user_002'' 5000 ''DAKAR''
                               [''SAINT_LOUIS'', ''ZIGUINCHOR''] early_world)) =
              balances (snd (commit_phase (commit_start commit_lossy_env)
                               (commit_steps commit_lossy_env) tx1 ''DAKAR''
                               [''SAINT_LOUIS'', ''ZIGUINCHOR''] w2))"
    by blast
  have early: "accounts (nodes early_world ''DAKAR'') = ?A"
              "accounts (nodes early_world ''SAINT_LOUIS'') = ?A"
              "accounts (nodes early_world ''ZIGUINCHOR'') = ?A"
    by (simp_all add: early_world_def upd_node_def)
  with b2 have w2: "accounts (nodes w2 ''DAKAR'') = ?A" "accounts (nodes w2 ''SAINT_LOUIS'') = ?A"
                   "accounts (nodes w2 ''ZIGUINCHOR'') = ?A"
    by (simp_all add: balances_def fun_eq_iff)
  have lag: "accounts (nodes lagging_world ''DAKAR'') = ?B"
            "accounts (nodes lagging_world ''SAINT_LOUIS'') = ?B"
            "accounts (nodes lagging_world ''ZIGUINCHOR'') = ?A"
    by (simp_all add: lagging_world_def upd_node_def seed_world_def seed_node_def new_node_def)
  have fb: "accounts (nodes w2 ''DAKAR'') (from_user tx1) = Some 15000"
   and tb: "accounts (nodes w2 ''DAKAR'') (to_user tx1) = Some 0"
    using w2 tx by simp_all
  have cs: "commit_start commit_lossy_env = 0" by (simp add: commit_lossy_env_def)
  have nin: "''DAKAR'' \<notin> set [''SAINT_LOUIS'', ''ZIGUINCHOR'']" by simp
  have ne: "''SAINT_LOUIS'' \<noteq> ''ZIGUINCHOR''" by simp
  have m: "accounts (nodes (snd (commit_phase (commit_start commit_lossy_env)
                               (commit_steps commit_lossy_env) tx1 ''DAKAR''
                               [''SAINT_LOUIS'', ''ZIGUINCHOR''] w2)) ''DAKAR'') = ?B"
    using commit_phase_master(2) [OF fb tb nin] w2 tx by (simp add: fun_eq_iff)
  define w5 where "w5 =
    upd_node ''DAKAR'' (add_transaction ''DAKAR'' tx1)
      (upd_node ''DAKAR'' (set_balance (to_user tx1) (0 + amount tx1))
        (upd_node ''DAKAR'' (set_balance (from_user tx1) (15000 - amount tx1))
          (upd_node ''DAKAR'' (\<lambda>n. n\<lparr>request_count := request_count n + 1\<rparr>)
            (upd_node ''DAKAR'' (\<lambda>n. n\<lparr>request_count := request_count n + 1\<rparr>) w2))))"
  have n5: "nodes w5 ''SAINT_LOUIS'' = nodes w2 ''SAINT_LOUIS''"
           "nodes w5 ''ZIGUINCHOR'' = nodes w2 ''ZIGUINCHOR''"
    by (simp_all add: w5_def nodes_upd_node_other)
  have cp: "snd (commit_phase (commit_start commit_lossy_env) (commit_steps commit_lossy_env)
                   tx1 ''DAKAR'' [''SAINT_LOUIS'', ''ZIGUINCHOR''] w2) =
            commit_replicas tx1 ''DAKAR'' 0 (commit_steps commit_lossy_env) 0 15000 0
              [''SAINT_LOUIS'', ''ZIGUINCHOR''] w5"
    using commit_phase_snd [OF fb tb, of "commit_start commit_lossy_env"
            "commit_steps commit_lossy_env" "[''SAINT_LOUIS'', ''ZIGUINCHOR'']"]
    by (simp only: cs w5_def)
  have z: "accounts (nodes (snd (commit_phase (commit_start commit_lossy_env)
                               (commit_steps commit_lossy_env) tx1 ''DAKAR''
                               [''SAINT_LOUIS'', ''ZIGUINCHOR''] w2)) ''ZIGUINCHOR'') = ?A"
    using commit_second_replica_lost(1) [OF ne, of tx1 "''DAKAR''" 15000 0 w5] n5 w2
    by (simp only: cp)
  have s: "accounts (nodes (snd (commit_phase (commit_start commit_lossy_env)
                               (commit_steps commit_lossy_env) tx1 ''DAKAR''
                               [''SAINT_LOUIS'', ''ZIGUINCHOR''] w2)) ''SAINT_LOUIS'') = ?B"
  proof -
    have "accounts (nodes (commit_replicas tx1 ''DAKAR'' 0 (commit_steps commit_lossy_env) 0
                             15000 0 [''SAINT_LOUIS'', ''ZIGUINCHOR''] w5) ''SAINT_LOUIS'') =
            ?A(''user_001'' \<mapsto> py_or (?A ''user_001'') 15000 - 5000,
               ''user_002'' \<mapsto> py_or (?A ''user_002'') 0 + 5000)"
      using commit_second_replica_lost(2) [OF ne, of tx1 "''DAKAR''" 15000 0 w5] n5 w2 tx
      by simp
    also have "\<dots> = ?B" by (simp add: py_or_def fun_eq_iff)
    finally show ?thesis by (simp only: cp)
  qed
  from succ bal m z s lag show ?thesis by (simp add: balances_def)
qed

text \<open>
  C5 (base of the replicated update). The claim says that a replica to which the Commit
  message is delivered applies the delta to its own stored balance, and that the balance
  read on the master before its commit is the base only when the replica stores no value
  for the user. The lemma \<open>commit_replicas_delivered\<close> above gives what the code does: the
  base is \<open>py_or\<close> of the replica's value and the master's, and Python's \<open>or\<close> also takes
  the master's value when the replica stores the balance 0. In the lagging state
  (\<open>lagging_state_reached\<close>) Ziguinchor stores 0 for \<open>user_002\<close> and the master stores
  5000; after the Commit phase of a transfer of 1000 to \<open>user_002\<close> Ziguinchor holds
  6000, not 1000.
\<close>

theorem commit_replica_zero_balance_uses_master_base:
  "balances lagging_world ''ZIGUINCHOR'' ''user_002'' = Some 0
   \<and> balances lagging_world ''DAKAR'' ''user_002'' = Some 5000
   \<and> balances
        (snd (commit_phase 0 calm (transfer_tx calm_env ''user_001'' ''user_002'' 1000) ''DAKAR''
                [''ZIGUINCHOR''] lagging_world)) ''ZIGUINCHOR'' ''user_002'' = Some 6000"
proof -
  let ?tx = "transfer_tx calm_env ''user_001'' ''user_002'' 1000"
  have fb: "accounts (nodes lagging_world ''DAKAR'') (from_user ?tx) = Some 10000"
   and tb: "accounts (nodes lagging_world ''DAKAR'') (to_user ?tx) = Some 5000"
   and rep: "accounts (nodes lagging_world ''ZIGUINCHOR'') = [''user_001'' \<mapsto> 15000, ''user_002'' \<mapsto> 0]"
    by (simp_all add: lagging_world_def upd_node_def seed_world_def seed_node_def new_node_def
          transfer_tx_fields)
  have ne: "''ZIGUINCHOR'' \<noteq> ''DAKAR''" by simp
  have intime: "\<not> clock (calm 0) - 0 > TIMEOUT_transfer"
    by (simp add: calm_def TIMEOUT_transfer_def)
  have deliv: "\<not> lost (calm 0)" by (simp add: calm_def)
  have nin: "''ZIGUINCHOR'' \<notin> set []" by simp
  from commit_phase_replica [where env = calm and s = 0, OF fb tb ne intime deliv nin] rep fb tb
  show ?thesis by (simp add: balances_def transfer_tx_fields py_or_def)
qed

lemma is_healthy_iff:
  "fst (is_healthy now n) \<longleftrightarrow> \<not> now - last_heartbeat n > 3 \<and> state n = HEALTHY"
  by (simp add: is_healthy_def)

text \<open>
  C4 (Prepare vote rule), as the code has it. The vote recorded for a participant is NO
  when the message to it is lost. When the message is delivered, the node is first asked
  whether it is healthy (\<open>is_healthy_iff\<close>: its last heartbeat is at most 3 seconds old
  and its state is \<open>HEALTHY\<close>), whatever its role: an unhealthy node votes NO. A healthy
  replica votes YES. A healthy master votes YES exactly when its balance for the source
  user is at least the amount; if it has no balance for the source user the comparison
  raises \<open>TypeError\<close> and no vote is recorded.
\<close>

theorem prepare_vote_rule:
  "fst (prepare_vote e tx master nid w) =
     (if lost e then Inr NO
      else if \<not> fst (is_healthy (health_clock e) (nodes w nid)) then Inr NO
      else if \<not> is_master (nodes w nid) then Inr YES
      else (case accounts (nodes w nid) (from_user tx) of
              None \<Rightarrow> Inl (TypeError ''>= not supported between instances of NoneType and int'')
            | Some b \<Rightarrow> Inr (if amount tx \<le> b then YES else NO)))"
  by (simp add: prepare_vote_def send_message_def can_node_prepare_def on_node_def
        is_healthy_def is_master_def get_balance_def split: option.splits)

theorem prepare_vote_rule_witness:
  "fst (prepare_vote (calm 1) (transfer_tx calm_env ''user_001'' ''user_002'' 2000) ''DAKAR''
          ''SAINT_LOUIS'' seed_world) = Inr YES
   \<and> fst (prepare_vote (calm 0) (transfer_tx calm_env ''user_001'' ''user_002'' 20000) ''DAKAR''
            ''DAKAR'' seed_world) = Inr NO"
  using prepare_vote_rule [of "calm 1" "transfer_tx calm_env ''user_001'' ''user_002'' 2000"
          "''DAKAR''" "''SAINT_LOUIS''" seed_world]
        prepare_vote_rule [of "calm 0" "transfer_tx calm_env ''user_001'' ''user_002'' 20000"
          "''DAKAR''" "''DAKAR''" seed_world]
  by (simp add: calm_def seed_world_def node_defs transfer_tx_fields)

text \<open>
  The claim C4 as stated says that a replica to which the message was delivered always
  votes YES. It does not: after the partition between Dakar and Ziguinchor is created,
  the state of Ziguinchor is \<open>ISOLATED\<close>, and a Prepare message delivered to it is
  answered by the vote NO.
\<close>

theorem replica_delivered_votes_NO_when_isolated:
  "\<not> lost (calm 2)
   \<and> role (nodes partitioned_world ''ZIGUINCHOR'') = REPLICA_ANALYTICS
   \<and> fst (prepare_vote (calm 2) (transfer_tx calm_env ''user_001'' ''user_002'' 2000) ''DAKAR''
            ''ZIGUINCHOR'' partitioned_world) = Inr NO"
  by (simp add: partition_defs node_defs transfer_defs)

section \<open>Claims about partitions\<close>

lemma nodes_set_latency: "nodes (set_latency k l w) = nodes w"
  by (simp add: set_latency_def)

lemma sim_nodes_set_latency: "sim_nodes (set_latency k l w) = sim_nodes w"
  by (simp add: set_latency_def)

lemma sim_nodes_network_heal:
  "sim_nodes (network_heal_partition a b w) = sim_nodes w"
  by (simp add: network_heal_partition_def Let_def sim_nodes_set_latency split: option.splits)

lemma heal_partition_reachability:
  assumes "node1_id \<in> set (sim_nodes w)" and "node2_id \<in> set (sim_nodes w)"
  shows "fst (heal_partition node1_id node2_id w) = Inr ()
       \<and> can_reach (nodes (snd (heal_partition node1_id node2_id w)) node1_id) node2_id = Some True
       \<and> can_reach (nodes (snd (heal_partition node1_id node2_id w)) node2_id) node1_id = Some True
       \<and> state (nodes (snd (heal_partition node1_id node2_id w)) node1_id) = HEALTHY
       \<and> state (nodes (snd (heal_partition node1_id node2_id w)) node2_id) = HEALTHY"
  using assms
  by (simp add: heal_partition_def Let_def sim_nodes_network_heal upd_node_def)

lemma heal_partition_congested_reverse_direction:
  "base_latency
     (snd (heal_partition ''DAKAR'' ''ZIGUINCHOR''
             (snd (create_partition 1 ''DAKAR'' ''ZIGUINCHOR'' (set_mode Congested seed_world)))))
     ''ZIGUINCHOR'' ''DAKAR'' = \<infinity>
   \<and> base_latency
     (snd (heal_partition ''DAKAR'' ''ZIGUINCHOR''
             (snd (create_partition 1 ''DAKAR'' ''ZIGUINCHOR'' (set_mode Congested seed_world)))))
     ''DAKAR'' ''ZIGUINCHOR'' = 150"
  by (simp add: base_latency_def latencies_def heal_partition_def network_heal_partition_def
        create_partition_def simulate_partition_def set_latency_def seed_world_def set_mode_def
        NetworkConfig_LATENCIES_def upd_node_def Let_def)

text \<open>
  C3 (healing round-trip). The claim says that \<open>heal_partition\<close> after \<open>create_partition\<close>
  restores the latency of both directions of the pair to the configured value of the mode
  \<open>normal\<close>, and the reachability entries and health states of both nodes. The lemma
  \<open>heal_partition_reachability\<close> above proves the part about reachability and health. The
  latency is not restored. In the driver's state (mode \<open>normal\<close>, configured latency 150
  between Dakar and Ziguinchor) both directions are infinite after the round-trip: the
  simulator's table is the configuration table itself, so the partition has overwritten the
  value that healing reads back. In any other mode the direction that the configuration
  does not list, Ziguinchor to Dakar, stays infinite
  (\<open>heal_partition_congested_reverse_direction\<close>).
\<close>

theorem heal_partition_leaves_latency_infinite:
  "base_latency seed_world ''ZIGUINCHOR'' ''DAKAR'' = 150
   \<and> NetworkConfig_LATENCIES Normal (''DAKAR'', ''ZIGUINCHOR'') = Some 150
   \<and> fst (heal_partition ''DAKAR'' ''ZIGUINCHOR''
            (snd (create_partition 1 ''DAKAR'' ''ZIGUINCHOR'' seed_world))) = Inr ()
   \<and> base_latency
        (snd (heal_partition ''DAKAR'' ''ZIGUINCHOR''
                (snd (create_partition 1 ''DAKAR'' ''ZIGUINCHOR'' seed_world))))
        ''ZIGUINCHOR'' ''DAKAR'' = \<infinity>
   \<and> base_latency
        (snd (heal_partition ''DAKAR'' ''ZIGUINCHOR''
                (snd (create_partition 1 ''DAKAR'' ''ZIGUINCHOR'' seed_world))))
        ''DAKAR'' ''ZIGUINCHOR'' = \<infinity>"
  by (simp add: base_latency_def latencies_def heal_partition_def network_heal_partition_def
        create_partition_def simulate_partition_def set_latency_def seed_world_def
        NetworkConfig_LATENCIES_def upd_node_def Let_def)

section \<open>Claims about the balance cache\<close>

lemma get_balance_ap_cache_hit:
  assumes "balance_cache (nodes w nid) user_id = Some (v, expiry)"
      and "cache_clock env < expiry"
  shows "fst (get_balance_ap env user_id nid w) =
           [''success'' \<mapsto> PBool True, ''balance'' \<mapsto> PNum v, ''source'' \<mapsto> PStr ''cache'',
            ''freshness'' \<mapsto> PStr ''cached'']
       \<and> balance_cache (nodes (snd (get_balance_ap env user_id nid w)) nid) =
           balance_cache (nodes w nid)"
  using assms
  by (simp add: get_balance_ap_def on_node_def get_balance_def get_from_cache_def)

lemma get_balance_ap_cache_after:
  "balance_cache (nodes (snd (get_balance_ap env user_id nid w)) nid) =
     snd (get_from_cache (cache_clock env) user_id (balance_cache (nodes w nid)))"
  by (simp add: get_balance_ap_def on_node_def get_balance_def get_from_cache_def Let_def
           split: option.splits prod.splits if_splits)

lemma get_balance_ap_expired:
  assumes "balance_cache (nodes w nid) user_id = Some (v, expiry)"
      and "\<not> cache_clock env < expiry"
      and "accounts (nodes w nid) user_id = Some b"
  shows "fst (get_balance_ap env user_id nid w) =
           [''success'' \<mapsto> PBool True, ''balance'' \<mapsto> PNum b, ''source'' \<mapsto> PStr ''cache'',
            ''freshness'' \<mapsto> PStr ''cached'']
       \<and> balance_cache (nodes (snd (get_balance_ap env user_id nid w)) nid) user_id = None"
  using assms
  by (simp add: get_balance_ap_def on_node_def get_balance_def get_from_cache_def)

lemma fresh_balance_cache_hit:
  "fst (get_balance_ap early_query_env ''user_001'' ''SAINT_LOUIS'' stale_cache_world) =
     [''success'' \<mapsto> PBool True, ''balance'' \<mapsto> PNum 9000, ''source'' \<mapsto> PStr ''cache'',
      ''freshness'' \<mapsto> PStr ''cached'']"
proof -
  have c: "balance_cache (nodes stale_cache_world ''SAINT_LOUIS'') ''user_001'' = Some (9000, 60)"
    by (simp add: stale_cache_world_def upd_node_def seed_world_def seed_node_def new_node_def)
  have e: "cache_clock early_query_env < 60" by (simp add: early_query_env_def)
  from get_balance_ap_cache_hit [OF c e] show ?thesis by simp
qed

text \<open>
  C9 (cache TTL of AP balance reads). The first half of the claim holds: a query whose
  cache lookup happens before the expiry instant returns the cached value tagged
  \<open>cached\<close> (\<open>get_balance_ap_cache_hit\<close>). The second half says that a query after the
  expiry re-populates the cache with the expiry instant read time plus 60. It does not:
  \<open>Node.get_balance\<close> with \<open>from_cache=True\<close> falls back to the account map when the
  cache misses, so \<open>_get_balance_ap\<close> takes the authoritative value for a cache hit, tags it
  \<open>cached\<close> and never reaches \<open>_set_cache\<close>; the cache after any query is the cache after
  the lookup alone (\<open>get_balance_ap_cache_after\<close>). With the entry (9000, expiry 60) and
  the account balance 10000, a query at the instant 100 returns 10000 tagged \<open>cached\<close>
  and leaves no cache entry for the user.
\<close>

theorem expired_balance_cache_not_repopulated:
  "balance_cache (nodes stale_cache_world ''SAINT_LOUIS'') ''user_001'' = Some (9000, 60)
   \<and> \<not> cache_clock late_query_env < 60
   \<and> accounts (nodes stale_cache_world ''SAINT_LOUIS'') ''user_001'' = Some 10000
   \<and> fst (get_balance_ap late_query_env ''user_001'' ''SAINT_LOUIS'' stale_cache_world)
        ''balance'' = Some (PNum 10000)
   \<and> fst (get_balance_ap late_query_env ''user_001'' ''SAINT_LOUIS'' stale_cache_world)
        ''freshness'' = Some (PStr ''cached'')
   \<and> balance_cache
        (nodes (snd (get_balance_ap late_query_env ''user_001'' ''SAINT_LOUIS'' stale_cache_world))
           ''SAINT_LOUIS'') ''user_001'' = None"
proof -
  have c: "balance_cache (nodes stale_cache_world ''SAINT_LOUIS'') ''user_001'' = Some (9000, 60)"
   and a: "accounts (nodes stale_cache_world ''SAINT_LOUIS'') ''user_001'' = Some 10000"
    by (simp_all add: stale_cache_world_def upd_node_def seed_world_def seed_node_def new_node_def)
  have l: "\<not> cache_clock late_query_env < 60" by (simp add: late_query_env_def)
  from get_balance_ap_expired [OF c l a] c l a show ?thesis by simp
qed

end
